theory Spec2Isabelle
  imports Complex_Main "HOL-Library.Signed_Division"
begin

section \<open>JavaScript values used by the SDK and the CLI\<close>

text \<open>
  A JavaScript \<open>number\<close> is either integer-valued (\<open>Number.isInteger\<close> holds, and
  \<open>BigInt(value)\<close> is that integer) or not (a fraction, \<open>NaN\<close>, an infinity).
  The quote and limit functions only ever ask which of the two a number is, and compare
  the integer with zero.
\<close>

datatype jsnumber = IntNum int | NonIntNum

text \<open>
  The parameter type \<open>bigint | number\<close>. A \<open>bigint\<close> is an \<open>int\<close>: the engine's
  limit on the size of a BigInt is not modelled.
\<close>

datatype numeric = BigInt int | Number jsnumber

text \<open>
  Every \<open>throw new Error(...)\<close> of the modelled functions is one constructor; the
  constructors that carry a string carry the field name interpolated into the message.
  \<open>RangeErrorDivisionByZero\<close> is the exception of BigInt \<open>/\<close> and \<open>%\<close> on a zero
  divisor.
\<close>

datatype error =
    AmountInNotPositive          \<comment> \<open>amountIn must be greater than zero\<close>
  | PegPriceNotPositive          \<comment> \<open>config.pegPriceUsd must be greater than zero\<close>
  | OraclePriceNotPositive       \<comment> \<open>oraclePriceUsd must be greater than zero\<close>
  | OraclePriceOutOfBounds       \<comment> \<open>oraclePriceUsd is outside of the vault's configured bounds\<close>
  | NotNonNegativeInteger string \<comment> \<open><field> must be a non-negative integer\<close>
  | MintFeeExceedsAmount         \<comment> \<open>Mint fee exceeds the provided amount\<close>
  | RedeemFeeExceedsAmount       \<comment> \<open>Redeem fee exceeds the provided amount\<close>
  | PegPriceZero                 \<comment> \<open>pegPriceUsd cannot be zero\<close>
  | OraclePriceZero              \<comment> \<open>oraclePriceUsd cannot be zero\<close>
  | DecimalExponentInvalid       \<comment> \<open>Decimal exponents must be a non-negative integer\<close>
  | NotFiniteInteger             \<comment> \<open>Numeric inputs must be finite integers to avoid precision loss\<close>
  | FieldNotFiniteInteger string \<comment> \<open><field> must be a finite integer\<close>
  | AmountNotPositive            \<comment> \<open>amount must be greater than zero\<close>
  | OperationInvalid             \<comment> \<open>operation must be either "mint" or "redeem"\<close>
  | RangeErrorDivisionByZero
  | InvalidPegPriceFormat        \<comment> \<open>Invalid value for --peg-price-usd ...\<close>
  | PegPricePrecisionExceeded    \<comment> \<open>Peg price precision cannot exceed 4 decimal places\<close>
  | InvalidU64Flag string        \<comment> \<open>Invalid value for --<flag>. Expected a non-negative integer\<close>
  | UnableToParseU64 string      \<comment> \<open>Unable to parse --<flag> as a 64-bit unsigned integer\<close>
  | PegPriceNotGreaterThanZero   \<comment> \<open>Peg price must be greater than 0\<close>
  | PegPriceTooLarge             \<comment> \<open>Peg price must be less than 2\<close>

text \<open>Sequencing of computations that may throw: the first exception wins.\<close>

definition bindE :: "error + 'a \<Rightarrow> ('a \<Rightarrow> error + 'b) \<Rightarrow> error + 'b" where
  "bindE m f = (case m of Inl e \<Rightarrow> Inl e | Inr v \<Rightarrow> f v)"

text \<open>
  BigInt division truncates towards zero and the remainder takes the sign of the
  dividend: \<open>sdiv\<close> and \<open>smod\<close> on \<open>int\<close>. A zero divisor throws.
\<close>

definition bigint_div :: "int \<Rightarrow> int \<Rightarrow> error + int" where
  "bigint_div n d = (if d = 0 then Inl RangeErrorDivisionByZero else Inr (n sdiv d))"

definition bigint_rem :: "int \<Rightarrow> int \<Rightarrow> error + int" where
  "bigint_rem n d = (if d = 0 then Inl RangeErrorDivisionByZero else Inr (n smod d))"

section \<open>Account snapshots (the fields the quote and limit code reads)\<close>

record PeriodLimit =
  durationSeconds :: numeric
  maxMintAmount :: numeric
  maxRedeemAmount :: numeric
  mintedAmount :: numeric
  redeemedAmount :: numeric
  windowStart :: numeric

record Config =
  pegPriceUsd :: numeric
  decimals :: jsnumber
  periodLimits :: "PeriodLimit list"

record Vault =
  minOraclePriceUsd :: numeric
  maxOraclePriceUsd :: numeric
  decimals :: jsnumber
  periodLimits :: "PeriodLimit list"

record Benefactor =
  mintFeeRate :: jsnumber
  redeemFeeRate :: jsnumber
  periodLimits :: "PeriodLimit list"

section \<open>sdk/src/quote/mint.ts\<close>

definition BASIS_POINTS :: int where "BASIS_POINTS = 10000"
definition PEG_PRICE_DECIMALS :: nat where "PEG_PRICE_DECIMALS = 4"
definition ORACLE_PRICE_DECIMALS :: nat where "ORACLE_PRICE_DECIMALS = 8"
definition PEG_PRICE_SCALE :: int where "PEG_PRICE_SCALE = 10 ^ PEG_PRICE_DECIMALS"
definition ORACLE_PRICE_SCALE :: int where "ORACLE_PRICE_SCALE = 10 ^ ORACLE_PRICE_DECIMALS"

record MintQuoteInput =
  amountIn :: numeric
  config :: Config
  benefactor :: Benefactor
  vault :: Vault
  oraclePriceUsd :: numeric

record MintQuote =
  amountIn :: int
  feeAmount :: int
  netAmount :: int
  oracleAmount :: int
  oneToOneAmount :: int
  mintAmount :: int

text \<open>\<open>n / d + (n % d ? 1n : 0n)\<close>\<close>

definition ceilBigInt :: "int \<Rightarrow> int \<Rightarrow> error + int" where
  "ceilBigInt n d =
     bindE (bigint_div n d) (\<lambda>q.
     bindE (bigint_rem n d) (\<lambda>r.
     Inr (q + (if r \<noteq> 0 then 1 else 0))))"

definition toBigInt :: "numeric \<Rightarrow> error + int" where
  "toBigInt v =
     (case v of
        BigInt b \<Rightarrow> Inr b
      | Number NonIntNum \<Rightarrow> Inl NotFiniteInteger
      | Number (IntNum i) \<Rightarrow> Inr i)"

definition ensureNonNegativeInteger :: "jsnumber \<Rightarrow> string \<Rightarrow> error + jsnumber" where
  "ensureNonNegativeInteger v field =
     (case v of
        NonIntNum \<Rightarrow> Inl (NotNonNegativeInteger field)
      | IntNum i \<Rightarrow> if i < 0 then Inl (NotNonNegativeInteger field) else Inr v)"

definition pow10 :: "jsnumber \<Rightarrow> error + int" where
  "pow10 exponent =
     (case exponent of
        NonIntNum \<Rightarrow> Inl DecimalExponentInvalid
      | IntNum i \<Rightarrow> if i < 0 then Inl DecimalExponentInvalid else Inr (10 ^ nat i))"

definition computeMintFee :: "int \<Rightarrow> jsnumber \<Rightarrow> error + int" where
  "computeMintFee amount rate =
     (case rate of
        NonIntNum \<Rightarrow> Inl (NotNonNegativeInteger ''mintFeeRate'')
      | IntNum r \<Rightarrow>
          if r < 0 then Inl (NotNonNegativeInteger ''mintFeeRate'')
          else ceilBigInt (amount * r) BASIS_POINTS)"

definition mint_computeOracleAmount :: "int \<Rightarrow> int \<Rightarrow> int \<Rightarrow> int \<Rightarrow> int \<Rightarrow> error + int" where
  "mint_computeOracleAmount amount oraclePrice pegPrice lpScale vaultScale =
     (if pegPrice = 0 then Inl PegPriceZero
      else bigint_div (amount * oraclePrice * lpScale * PEG_PRICE_SCALE)
                      (pegPrice * vaultScale * ORACLE_PRICE_SCALE))"

definition mint_computeOneToOneAmount :: "int \<Rightarrow> int \<Rightarrow> int \<Rightarrow> int \<Rightarrow> error + int" where
  "mint_computeOneToOneAmount net pegPrice lpScale vaultScale =
     (if pegPrice = 0 then Inl PegPriceZero
      else bigint_div (net * PEG_PRICE_SCALE * lpScale) (pegPrice * vaultScale))"

definition getMintQuote :: "MintQuoteInput \<Rightarrow> error + MintQuote" where
  "getMintQuote input =
     bindE (toBigInt (MintQuoteInput.amountIn input)) (\<lambda>amount.
     if amount \<le> 0 then Inl AmountInNotPositive else
     bindE (toBigInt (pegPriceUsd (MintQuoteInput.config input))) (\<lambda>pegPrice.
     if pegPrice \<le> 0 then Inl PegPriceNotPositive else
     bindE (toBigInt (MintQuoteInput.oraclePriceUsd input)) (\<lambda>oraclePrice.
     if oraclePrice \<le> 0 then Inl OraclePriceNotPositive else
     bindE (toBigInt (minOraclePriceUsd (MintQuoteInput.vault input))) (\<lambda>minRaw.
     let minOraclePrice = minRaw * 10 ^ (ORACLE_PRICE_DECIMALS - PEG_PRICE_DECIMALS) in
     if oraclePrice < minOraclePrice then Inl OraclePriceOutOfBounds else
     bindE (ensureNonNegativeInteger (Vault.decimals (MintQuoteInput.vault input))
              ''vault.decimals'') (\<lambda>vaultDecimals.
     bindE (ensureNonNegativeInteger (Config.decimals (MintQuoteInput.config input))
              ''config.decimals'') (\<lambda>lpMintDecimals.
     bindE (pow10 vaultDecimals) (\<lambda>vaultScale.
     bindE (pow10 lpMintDecimals) (\<lambda>lpScale.
     bindE (computeMintFee amount (mintFeeRate (MintQuoteInput.benefactor input))) (\<lambda>fee.
     if fee > amount then Inl MintFeeExceedsAmount else
     let net = amount - fee in
     bindE (mint_computeOracleAmount amount oraclePrice pegPrice lpScale vaultScale) (\<lambda>oracleAmt.
     bindE (mint_computeOneToOneAmount net pegPrice lpScale vaultScale) (\<lambda>oneToOne.
     Inr \<lparr> MintQuote.amountIn = amount, feeAmount = fee, netAmount = net,
           oracleAmount = oracleAmt, oneToOneAmount = oneToOne,
           mintAmount = (if oracleAmt < oneToOne then oracleAmt else oneToOne) \<rparr>)))))))))))"

section \<open>sdk/src/quote/redeem.ts\<close>

record RedeemQuoteInput =
  amountIn :: numeric
  config :: Config
  benefactor :: Benefactor
  vault :: Vault
  oraclePriceUsd :: numeric

record RedeemQuote =
  amountIn :: int
  feeAmount :: int
  netAmount :: int
  oracleAmount :: int
  oneToOneAmount :: int
  redeemAmount :: int

definition computeRedeemFee :: "int \<Rightarrow> jsnumber \<Rightarrow> error + int" where
  "computeRedeemFee amount rate =
     (case rate of
        NonIntNum \<Rightarrow> Inl (NotNonNegativeInteger ''redeemFeeRate'')
      | IntNum r \<Rightarrow>
          if r < 0 then Inl (NotNonNegativeInteger ''redeemFeeRate'')
          else ceilBigInt (amount * r) BASIS_POINTS)"

definition redeem_computeOracleAmount :: "int \<Rightarrow> int \<Rightarrow> int \<Rightarrow> int \<Rightarrow> int \<Rightarrow> error + int" where
  "redeem_computeOracleAmount amount oraclePrice pegPrice lpScale vaultScale =
     (if oraclePrice = 0 then Inl OraclePriceZero
      else bigint_div (amount * pegPrice * vaultScale * ORACLE_PRICE_SCALE)
                      (oraclePrice * lpScale * PEG_PRICE_SCALE))"

definition redeem_computeOneToOneAmount :: "int \<Rightarrow> int \<Rightarrow> int \<Rightarrow> int \<Rightarrow> error + int" where
  "redeem_computeOneToOneAmount net pegPrice lpScale vaultScale =
     (if pegPrice = 0 then Inl PegPriceZero
      else bigint_div (net * pegPrice * vaultScale) (PEG_PRICE_SCALE * lpScale))"

definition getRedeemQuote :: "RedeemQuoteInput \<Rightarrow> error + RedeemQuote" where
  "getRedeemQuote input =
     bindE (toBigInt (RedeemQuoteInput.amountIn input)) (\<lambda>amount.
     if amount \<le> 0 then Inl AmountInNotPositive else
     bindE (toBigInt (pegPriceUsd (RedeemQuoteInput.config input))) (\<lambda>pegPrice.
     if pegPrice \<le> 0 then Inl PegPriceNotPositive else
     bindE (toBigInt (RedeemQuoteInput.oraclePriceUsd input)) (\<lambda>oraclePrice.
     if oraclePrice \<le> 0 then Inl OraclePriceNotPositive else
     bindE (toBigInt (minOraclePriceUsd (RedeemQuoteInput.vault input))) (\<lambda>minRaw.
     let minOraclePrice = minRaw * 10 ^ (ORACLE_PRICE_DECIMALS - PEG_PRICE_DECIMALS) in
     bindE (toBigInt (maxOraclePriceUsd (RedeemQuoteInput.vault input))) (\<lambda>maxRaw.
     let maxOraclePrice = maxRaw * 10 ^ (ORACLE_PRICE_DECIMALS - PEG_PRICE_DECIMALS) in
     if oraclePrice < minOraclePrice \<or> oraclePrice > maxOraclePrice
     then Inl OraclePriceOutOfBounds else
     bindE (ensureNonNegativeInteger (Vault.decimals (RedeemQuoteInput.vault input))
              ''vault.decimals'') (\<lambda>vaultDecimals.
     bindE (ensureNonNegativeInteger (Config.decimals (RedeemQuoteInput.config input))
              ''config.decimals'') (\<lambda>lpMintDecimals.
     bindE (pow10 vaultDecimals) (\<lambda>vaultScale.
     bindE (pow10 lpMintDecimals) (\<lambda>lpScale.
     bindE (computeRedeemFee amount (redeemFeeRate (RedeemQuoteInput.benefactor input))) (\<lambda>fee.
     if fee > amount then Inl RedeemFeeExceedsAmount else
     let net = amount - fee in
     bindE (redeem_computeOracleAmount amount oraclePrice pegPrice lpScale vaultScale) (\<lambda>oracleAmt.
     bindE (redeem_computeOneToOneAmount net pegPrice lpScale vaultScale) (\<lambda>oneToOne.
     Inr \<lparr> RedeemQuote.amountIn = amount, feeAmount = fee, netAmount = net,
           oracleAmount = oracleAmt, oneToOneAmount = oneToOne,
           redeemAmount = (if oracleAmt < oneToOne then oracleAmt else oneToOne) \<rparr>))))))))))))"

section \<open>Period-limit check (sdk, \<open>findPeriodLimitViolation\<close>)\<close>

record PeriodLimitCheckInput =
  amount :: numeric
  operation :: string
  benefactor :: Benefactor
  config :: Config
  vault :: Vault

datatype PeriodLimitViolationAccount = AccountConfig | AccountVault | AccountBenefactor

record PeriodLimitViolation =
  account :: PeriodLimitViolationAccount
  remainingAmount :: int

definition toBigIntField :: "numeric \<Rightarrow> string \<Rightarrow> error + int" where
  "toBigIntField v field =
     (case v of
        BigInt b \<Rightarrow> Inr b
      | Number NonIntNum \<Rightarrow> Inl (FieldNotFiniteInteger field)
      | Number (IntNum i) \<Rightarrow> Inr i)"

text \<open>\<open>None\<close> is the source's \<open>null\<close>: the slot is disabled.\<close>

definition getRemainingCapacity :: "PeriodLimit \<Rightarrow> int \<Rightarrow> string \<Rightarrow> error + int option" where
  "getRemainingCapacity limit now op =
     bindE (toBigIntField (durationSeconds limit) ''limit.durationSeconds'') (\<lambda>duration.
     if duration = 0 then Inr None else
     bindE (if op = ''mint''
            then toBigIntField (maxMintAmount limit) ''limit.maxMintAmount''
            else toBigIntField (maxRedeemAmount limit) ''limit.maxRedeemAmount'') (\<lambda>maxAmount.
     if maxAmount = 0 then Inr (Some 0) else
     bindE (toBigIntField (windowStart limit) ''limit.windowStart'') (\<lambda>wStart.
     let windowElapsed = now - wStart in
     bindE (if windowElapsed \<ge> duration then Inr 0
            else if op = ''mint''
            then toBigIntField (mintedAmount limit) ''limit.mintedAmount''
            else toBigIntField (redeemedAmount limit) ''limit.redeemedAmount'') (\<lambda>usedAmount.
     Inr (Some (maxAmount - usedAmount))))))"

fun findLimitExceedance :: "PeriodLimit list \<Rightarrow> int \<Rightarrow> int \<Rightarrow> string \<Rightarrow> error + int option" where
  "findLimitExceedance [] amt now op = Inr None"
| "findLimitExceedance (limit # rest) amt now op =
     bindE (getRemainingCapacity limit now op) (\<lambda>remaining.
     case remaining of
       None \<Rightarrow> findLimitExceedance rest amt now op
     | Some r \<Rightarrow>
         if amt > r then Inr (Some (if r > 0 then r else 0))
         else findLimitExceedance rest amt now op)"

text \<open>
  The source reads the clock once (\<open>BigInt(Math.floor(Date.now() / 1000))\<close>); the
  model takes that reading as the parameter \<open>now\<close>.
\<close>

definition findPeriodLimitViolation ::
  "int \<Rightarrow> PeriodLimitCheckInput \<Rightarrow> error + PeriodLimitViolation option" where
  "findPeriodLimitViolation now input =
     bindE (toBigIntField (amount input) ''amount'') (\<lambda>amt.
     if amt \<le> 0 then Inl AmountNotPositive else
     let op = operation input in
     if op \<noteq> ''mint'' \<and> op \<noteq> ''redeem'' then Inl OperationInvalid else
     bindE (findLimitExceedance (Config.periodLimits (PeriodLimitCheckInput.config input))
              amt now op) (\<lambda>configRemaining.
     case configRemaining of
       Some r \<Rightarrow> Inr (Some \<lparr> account = AccountConfig, remainingAmount = r \<rparr>)
     | None \<Rightarrow>
     bindE (findLimitExceedance (Vault.periodLimits (PeriodLimitCheckInput.vault input))
              amt now op) (\<lambda>vaultRemaining.
     case vaultRemaining of
       Some r \<Rightarrow> Inr (Some \<lparr> account = AccountVault, remainingAmount = r \<rparr>)
     | None \<Rightarrow>
     bindE (findLimitExceedance
              (Benefactor.periodLimits (PeriodLimitCheckInput.benefactor input))
              amt now op) (\<lambda>benefactorRemaining.
     case benefactorRemaining of
       Some r \<Rightarrow> Inr (Some \<lparr> account = AccountBenefactor, remainingAmount = r \<rparr>)
     | None \<Rightarrow> Inr None))))"

section \<open>cli: \<open>parseU64StringFlag\<close> and \<open>parsePegPriceFlag\<close>\<close>

text \<open>
  A JavaScript string is modelled as a \<open>string\<close> whose characters are its code units;
  the code units above U+00FF are outside the type. \<open>\d\<close> matches the ten ASCII
  digits. \<open>trim\<close> removes white space and line terminators, which below U+0100 are
  U+0009 to U+000D, U+0020 and U+00A0.
\<close>

definition is_digit :: "char \<Rightarrow> bool" where
  "is_digit c = (c \<in> set ''0123456789'')"

definition digit_value :: "char \<Rightarrow> int" where
  "digit_value c = of_char c - 48"

definition is_white_space :: "char \<Rightarrow> bool" where
  "is_white_space c = ((of_char c :: nat) \<in> {9, 10, 11, 12, 13, 32, 160})"

definition trim :: "string \<Rightarrow> string" where
  "trim s = rev (dropWhile is_white_space (rev (dropWhile is_white_space s)))"

text \<open>\<open>/^\d+$/.test(s)\<close>\<close>

definition test_digits :: "string \<Rightarrow> bool" where
  "test_digits s = (s \<noteq> [] \<and> list_all is_digit s)"

text \<open>\<open>/^\d+(\.\d+)?$/.test(s)\<close>\<close>

definition test_decimal :: "string \<Rightarrow> bool" where
  "test_decimal s =
     (takeWhile is_digit s \<noteq> [] \<and>
      (case dropWhile is_digit s of
         [] \<Rightarrow> True
       | c # f \<Rightarrow> c = CHR ''.'' \<and> test_digits f))"

text \<open>\<open>s.split(".")\<close>: never empty; the empty string gives one empty part.\<close>

fun split_dot :: "string \<Rightarrow> string list" where
  "split_dot [] = [[]]"
| "split_dot (c # cs) =
     (if c = CHR ''.'' then [] # split_dot cs
      else (c # hd (split_dot cs)) # tl (split_dot cs))"

text \<open>\<open>s.padEnd(n, "0")\<close>\<close>

definition padEnd0 :: "string \<Rightarrow> nat \<Rightarrow> string" where
  "padEnd0 s n = s @ replicate (n - length s) CHR ''0''"

text \<open>
  \<open>BigInt(s)\<close> on a string of decimal digits. Both call sites sit behind a regular
  expression test that admits nothing else, so the other literals the builtin accepts
  (signs, radix prefixes, surrounding white space) cannot reach it.
\<close>

definition BigInt_of_digits :: "string \<Rightarrow> int" where
  "BigInt_of_digits s = foldl (\<lambda>acc c. acc * 10 + digit_value c) 0 s"

text \<open>
  The range check throws inside the \<open>try\<close> block, so the \<open>catch\<close> clause
  rethrows it under the "Unable to parse" message.
\<close>

definition parseU64StringFlag :: "string \<Rightarrow> string \<Rightarrow> error + int" where
  "parseU64StringFlag raw flagName =
     (if \<not> test_digits raw then Inl (InvalidU64Flag flagName)
      else let v = BigInt_of_digits raw; mx = 2 ^ 64 - 1 in
        if v > mx then Inl (UnableToParseU64 flagName) else Inr v)"

record PegPrice =
  scaledValue :: int
  displayValue :: string

text \<open>\<open>s.replace(/\.$/, "")\<close>\<close>

definition strip_trailing_dot :: "string \<Rightarrow> string" where
  "strip_trailing_dot s = (if s \<noteq> [] \<and> last s = CHR ''.'' then butlast s else s)"

definition parsePegPriceFlag :: "string \<Rightarrow> error + PegPrice" where
  "parsePegPriceFlag v =
     (let trimmed = trim v in
      if \<not> test_decimal trimmed then Inl InvalidPegPriceFormat else
      let parts = split_dot trimmed;
          whole = hd parts;
          fraction = (case tl parts of [] \<Rightarrow> [] | f # _ \<Rightarrow> f) in
      if length fraction > PEG_PRICE_DECIMALS then Inl PegPricePrecisionExceeded else
      let paddedFraction = padEnd0 fraction PEG_PRICE_DECIMALS in
      bindE (parseU64StringFlag whole ''peg-price-usd'') (\<lambda>wholeValue.
      let fractionalValue = (if paddedFraction \<noteq> [] then BigInt_of_digits paddedFraction else 0);
          scalingFactor = 10 ^ PEG_PRICE_DECIMALS;
          scaled = wholeValue * scalingFactor + fractionalValue in
      if scaled \<le> 0 then Inl PegPriceNotGreaterThanZero else
      let maxPegPrice = 2 * 10 ^ PEG_PRICE_DECIMALS in
      if scaled \<ge> maxPegPrice then Inl PegPriceTooLarge else
      let displayFraction = take PEG_PRICE_DECIMALS paddedFraction in
      Inr \<lparr> scaledValue = scaled,
            displayValue = strip_trailing_dot (whole @ ''.'' @ displayFraction) \<rparr>))"

section \<open>Concrete inputs used to exercise the theorems\<close>

definition scenario_config :: Config where
  "scenario_config = \<lparr> pegPriceUsd = BigInt 10000, decimals = IntNum 6, periodLimits = [] \<rparr>"

definition scenario_vault :: Vault where
  "scenario_vault = \<lparr> minOraclePriceUsd = BigInt 9000, maxOraclePriceUsd = BigInt 11000,
                       decimals = IntNum 6, periodLimits = [] \<rparr>"

definition scenario_benefactor :: Benefactor where
  "scenario_benefactor = \<lparr> mintFeeRate = IntNum 25, redeemFeeRate = IntNum 25, periodLimits = [] \<rparr>"

definition scenario_mint_input :: MintQuoteInput where
  "scenario_mint_input =
     \<lparr> MintQuoteInput.amountIn = BigInt 1000000000, config = scenario_config,
       benefactor = scenario_benefactor, vault = scenario_vault,
       oraclePriceUsd = BigInt 100000000 \<rparr>"

definition scenario_mint_quote :: MintQuote where
  "scenario_mint_quote =
     \<lparr> MintQuote.amountIn = 1000000000, feeAmount = 2500000, netAmount = 997500000,
       oracleAmount = 1000000000, oneToOneAmount = 997500000, mintAmount = 997500000 \<rparr>"

definition scenario_redeem_input :: RedeemQuoteInput where
  "scenario_redeem_input =
     \<lparr> RedeemQuoteInput.amountIn = BigInt 1000000000, config = scenario_config,
       benefactor = scenario_benefactor, vault = scenario_vault,
       oraclePriceUsd = BigInt 100000000 \<rparr>"

definition scenario_redeem_quote :: RedeemQuote where
  "scenario_redeem_quote =
     \<lparr> RedeemQuote.amountIn = 1000000000, feeAmount = 2500000, netAmount = 997500000,
       oracleAmount = 1000000000, oneToOneAmount = 997500000, redeemAmount = 997500000 \<rparr>"

text \<open>
  The oracle-amount formula as the specification words it, with \<open>10^8\<close> in the
  numerator and in the denominator; the source's \<open>computeOracleAmount\<close> is compared
  with it below.
\<close>

definition spec_mint_oracleAmount :: "int \<Rightarrow> int \<Rightarrow> int \<Rightarrow> nat \<Rightarrow> nat \<Rightarrow> int" where
  "spec_mint_oracleAmount a oraclePrice pegPrice lpDecimals vaultDecimals =
     \<lfloor>(of_int a * of_int oraclePrice * 10 ^ lpDecimals * 10 ^ 8) /
      (of_int pegPrice * 10 ^ vaultDecimals * 10 ^ 8 :: real)\<rfloor>"

definition half_peg_mint_input :: MintQuoteInput where
  "half_peg_mint_input =
     \<lparr> MintQuoteInput.amountIn = BigInt 1000000,
       config = \<lparr> pegPriceUsd = BigInt 5000, decimals = IntNum 6, periodLimits = [] \<rparr>,
       benefactor = \<lparr> mintFeeRate = IntNum 0, redeemFeeRate = IntNum 0, periodLimits = [] \<rparr>,
       vault = \<lparr> minOraclePriceUsd = BigInt 4000, maxOraclePriceUsd = BigInt 6000,
                 decimals = IntNum 6, periodLimits = [] \<rparr>,
       oraclePriceUsd = BigInt 50000000 \<rparr>"

definition half_peg_mint_quote :: MintQuote where
  "half_peg_mint_quote =
     \<lparr> MintQuote.amountIn = 1000000, feeAmount = 0, netAmount = 1000000,
       oracleAmount = 1000000, oneToOneAmount = 2000000, mintAmount = 1000000 \<rparr>"

definition feeless_mint_input :: MintQuoteInput where
  "feeless_mint_input =
     \<lparr> MintQuoteInput.amountIn = BigInt 1000000000, config = scenario_config,
       benefactor = \<lparr> mintFeeRate = IntNum 0, redeemFeeRate = IntNum 0, periodLimits = [] \<rparr>,
       vault = scenario_vault, oraclePriceUsd = BigInt 100000000 \<rparr>"

definition feeless_mint_quote :: MintQuote where
  "feeless_mint_quote =
     \<lparr> MintQuote.amountIn = 1000000000, feeAmount = 0, netAmount = 1000000000,
       oracleAmount = 1000000000, oneToOneAmount = 1000000000, mintAmount = 1000000000 \<rparr>"


definition full_fee_benefactor :: Benefactor where
  "full_fee_benefactor =
     \<lparr> mintFeeRate = IntNum 10000, redeemFeeRate = IntNum 10000, periodLimits = [] \<rparr>"

definition full_fee_mint_input :: MintQuoteInput where
  "full_fee_mint_input =
     \<lparr> MintQuoteInput.amountIn = BigInt 1000000, config = scenario_config,
       benefactor = full_fee_benefactor, vault = scenario_vault,
       oraclePriceUsd = BigInt 100000000 \<rparr>"

definition full_fee_mint_quote :: MintQuote where
  "full_fee_mint_quote =
     \<lparr> MintQuote.amountIn = 1000000, feeAmount = 1000000, netAmount = 0,
       oracleAmount = 1000000, oneToOneAmount = 0, mintAmount = 0 \<rparr>"

definition full_fee_redeem_input :: RedeemQuoteInput where
  "full_fee_redeem_input =
     \<lparr> RedeemQuoteInput.amountIn = BigInt 1000000, config = scenario_config,
       benefactor = full_fee_benefactor, vault = scenario_vault,
       oraclePriceUsd = BigInt 100000000 \<rparr>"

definition full_fee_redeem_quote :: RedeemQuote where
  "full_fee_redeem_quote =
     \<lparr> RedeemQuote.amountIn = 1000000, feeAmount = 1000000, netAmount = 0,
       oracleAmount = 1000000, oneToOneAmount = 0, redeemAmount = 0 \<rparr>"

text \<open>
  The same input object handed to the redeem quote: the two input types have the same
  fields.
\<close>

definition as_redeem_input :: "MintQuoteInput \<Rightarrow> RedeemQuoteInput" where
  "as_redeem_input mi =
     \<lparr> RedeemQuoteInput.amountIn = MintQuoteInput.amountIn mi,
       config = MintQuoteInput.config mi,
       benefactor = MintQuoteInput.benefactor mi,
       vault = MintQuoteInput.vault mi,
       oraclePriceUsd = MintQuoteInput.oraclePriceUsd mi \<rparr>"

definition above_max_mint_input :: MintQuoteInput where
  "above_max_mint_input =
     \<lparr> MintQuoteInput.amountIn = BigInt 1000000000, config = scenario_config,
       benefactor = scenario_benefactor, vault = scenario_vault,
       oraclePriceUsd = BigInt 120000000 \<rparr>"

definition above_max_mint_quote :: MintQuote where
  "above_max_mint_quote =
     \<lparr> MintQuote.amountIn = 1000000000, feeAmount = 2500000, netAmount = 997500000,
       oracleAmount = 1200000000, oneToOneAmount = 997500000, mintAmount = 997500000 \<rparr>"

text \<open>
  A slot is violated by an amount when its remaining capacity is below the amount; it
  is readable when evaluating it raises no error.
\<close>

definition slot_violated :: "PeriodLimit \<Rightarrow> int \<Rightarrow> int \<Rightarrow> string \<Rightarrow> bool" where
  "slot_violated limit amt now op =
     (case getRemainingCapacity limit now op of
        Inl _ \<Rightarrow> False
      | Inr None \<Rightarrow> False
      | Inr (Some r) \<Rightarrow> r < amt)"

definition slot_readable :: "PeriodLimit \<Rightarrow> int \<Rightarrow> string \<Rightarrow> bool" where
  "slot_readable limit now op =
     (case getRemainingCapacity limit now op of Inl _ \<Rightarrow> False | Inr _ \<Rightarrow> True)"

text \<open>
  Slots for the clock reading \<open>10000\<close>: one hour long with \<open>900\<close> of \<open>1000\<close> minted
  half an hour ago, the same slot two hours old, a disabled slot and a blocked slot.
\<close>

definition tight_slot :: PeriodLimit where
  "tight_slot =
     \<lparr> durationSeconds = BigInt 3600, maxMintAmount = BigInt 1000, maxRedeemAmount = BigInt 1000,
       mintedAmount = BigInt 900, redeemedAmount = BigInt 0, windowStart = BigInt 8200 \<rparr>"

definition expired_slot :: PeriodLimit where
  "expired_slot =
     \<lparr> durationSeconds = BigInt 3600, maxMintAmount = BigInt 1000, maxRedeemAmount = BigInt 1000,
       mintedAmount = BigInt 900, redeemedAmount = BigInt 0, windowStart = BigInt 2800 \<rparr>"

definition disabled_slot :: PeriodLimit where
  "disabled_slot =
     \<lparr> durationSeconds = BigInt 0, maxMintAmount = BigInt 1, maxRedeemAmount = BigInt 1,
       mintedAmount = BigInt 5, redeemedAmount = BigInt 5, windowStart = BigInt 0 \<rparr>"

definition blocked_slot :: PeriodLimit where
  "blocked_slot =
     \<lparr> durationSeconds = BigInt 3600, maxMintAmount = BigInt 0, maxRedeemAmount = BigInt 0,
       mintedAmount = BigInt 0, redeemedAmount = BigInt 0, windowStart = BigInt 8200 \<rparr>"

definition limits_config :: "PeriodLimit list \<Rightarrow> Config" where
  "limits_config ls = \<lparr> pegPriceUsd = BigInt 10000, decimals = IntNum 6, periodLimits = ls \<rparr>"

definition limits_vault :: "PeriodLimit list \<Rightarrow> Vault" where
  "limits_vault ls =
     \<lparr> minOraclePriceUsd = BigInt 9000, maxOraclePriceUsd = BigInt 11000,
       decimals = IntNum 6, periodLimits = ls \<rparr>"

definition limits_benefactor :: "PeriodLimit list \<Rightarrow> Benefactor" where
  "limits_benefactor ls = \<lparr> mintFeeRate = IntNum 25, redeemFeeRate = IntNum 25, periodLimits = ls \<rparr>"

definition all_violated_input :: PeriodLimitCheckInput where
  "all_violated_input =
     \<lparr> amount = BigInt 150, operation = ''mint'',
       benefactor = limits_benefactor [tight_slot],
       config = limits_config [tight_slot],
       vault = limits_vault [tight_slot] \<rparr>"

definition all_violated_result :: PeriodLimitViolation where
  "all_violated_result = \<lparr> account = AccountConfig, remainingAmount = 100 \<rparr>"

definition vault_first_input :: PeriodLimitCheckInput where
  "vault_first_input =
     \<lparr> amount = BigInt 150, operation = ''mint'',
       benefactor = limits_benefactor [blocked_slot],
       config = limits_config [disabled_slot],
       vault = limits_vault [disabled_slot, tight_slot] \<rparr>"

definition benefactor_only_input :: PeriodLimitCheckInput where
  "benefactor_only_input =
     \<lparr> amount = BigInt 150, operation = ''mint'',
       benefactor = limits_benefactor [blocked_slot],
       config = limits_config [disabled_slot],
       vault = limits_vault [expired_slot] \<rparr>"

text \<open>
  The decimal number \<open>w.f\<close> (whole digits \<open>w\<close>, at most four fraction digits
  \<open>f\<close>) multiplied by \<open>10^4\<close>.
\<close>

definition scaled_decimal :: "string \<Rightarrow> string \<Rightarrow> int" where
  "scaled_decimal w f = BigInt_of_digits w * 10 ^ 4 + BigInt_of_digits f * 10 ^ (4 - length f)"

section \<open>Auxiliary facts: sequencing and BigInt arithmetic\<close>

lemma bindE_Inl [simp]: "bindE (Inl e) f = Inl e"
  by (simp add: bindE_def)

lemma bindE_Inr [simp]: "bindE (Inr v) f = f v"
  by (simp add: bindE_def)

lemma bindE_eq_Inr: "bindE m f = Inr y \<longleftrightarrow> (\<exists>v. m = Inr v \<and> f v = Inr y)"
  by (cases m) simp_all

lemma sdiv_nonneg: "0 \<le> a \<Longrightarrow> 0 < b \<Longrightarrow> a sdiv b = a div (b::int)"
  by (cases "a = 0") (simp_all add: signed_divide_int_def)

lemma smod_nonneg: "0 \<le> a \<Longrightarrow> 0 < b \<Longrightarrow> a smod b = a mod (b::int)"
  by (cases "a = 0") (simp_all add: signed_modulo_int_def)

lemma bigint_div_nonneg: "0 \<le> a \<Longrightarrow> 0 < b \<Longrightarrow> bigint_div a b = Inr (a div b)"
  by (simp add: bigint_div_def sdiv_nonneg)

lemma ceil_div_int:
  fixes n d :: int
  assumes "0 < d"
  shows "n div d + (if n mod d \<noteq> 0 then 1 else 0) = \<lceil>of_int n / (of_int d :: real)\<rceil>"
proof -
  have "- (of_int n / (of_int d :: real)) = of_int (- n) / of_int d"
    by simp
  then have "\<lceil>of_int n / (of_int d :: real)\<rceil> = - ((- n) div d)"
    unfolding ceiling_def by (simp only: floor_divide_of_int_eq)
  also have "\<dots> = n div d + (if n mod d \<noteq> 0 then 1 else 0)"
    using assms by (auto simp: zdiv_zminus1_eq_if)
  finally show ?thesis by simp
qed

lemma ceilBigInt_nonneg:
  "0 \<le> n \<Longrightarrow> 0 < d \<Longrightarrow> ceilBigInt n d = Inr (n div d + (if n mod d \<noteq> 0 then 1 else 0))"
  by (simp add: ceilBigInt_def bigint_div_def bigint_rem_def sdiv_nonneg smod_nonneg)

lemma ensureNonNegativeInteger_Inr:
  "ensureNonNegativeInteger v f = Inr w \<longleftrightarrow> (\<exists>i. v = IntNum i \<and> 0 \<le> i \<and> w = v)"
  by (auto simp: ensureNonNegativeInteger_def split: jsnumber.splits)

lemma pow10_Inr: "pow10 v = Inr s \<longleftrightarrow> (\<exists>i. v = IntNum i \<and> 0 \<le> i \<and> s = 10 ^ nat i)"
  by (auto simp: pow10_def split: jsnumber.splits)

lemma computeMintFee_Inr:
  assumes "0 \<le> a"
  shows "computeMintFee a rate = Inr fee \<longleftrightarrow>
     (\<exists>r. rate = IntNum r \<and> 0 \<le> r \<and> fee = (a * r) div 10000 + (if (a * r) mod 10000 \<noteq> 0 then 1 else 0))"
  using assms by (auto simp: computeMintFee_def BASIS_POINTS_def ceilBigInt_nonneg split: jsnumber.splits)

lemma mint_computeOracleAmount_pos:
  "0 \<le> a \<Longrightarrow> 0 < oc \<Longrightarrow> 0 < p \<Longrightarrow> 0 < L \<Longrightarrow> 0 < V \<Longrightarrow>
   mint_computeOracleAmount a oc p L V = Inr ((a * oc * L * 10 ^ 4) div (p * V * 10 ^ 8))"
  by (simp add: mint_computeOracleAmount_def PEG_PRICE_SCALE_def ORACLE_PRICE_SCALE_def
      PEG_PRICE_DECIMALS_def ORACLE_PRICE_DECIMALS_def bigint_div_nonneg)

lemma mint_computeOneToOneAmount_pos:
  "0 \<le> n \<Longrightarrow> 0 < p \<Longrightarrow> 0 < L \<Longrightarrow> 0 < V \<Longrightarrow>
   mint_computeOneToOneAmount n p L V = Inr ((n * 10 ^ 4 * L) div (p * V))"
  by (simp add: mint_computeOneToOneAmount_def PEG_PRICE_SCALE_def 
      PEG_PRICE_DECIMALS_def bigint_div_nonneg)

lemma getMintQuote_Inr_calls:
  assumes "getMintQuote inp = Inr q"
  shows "\<exists>a p oc mn dv dl fee oa oo.
           toBigInt (MintQuoteInput.amountIn inp) = Inr a \<and> 0 < a \<and>
           toBigInt (pegPriceUsd (MintQuoteInput.config inp)) = Inr p \<and> 0 < p \<and>
           toBigInt (MintQuoteInput.oraclePriceUsd inp) = Inr oc \<and> 0 < oc \<and>
           toBigInt (minOraclePriceUsd (MintQuoteInput.vault inp)) = Inr mn \<and> mn * 10 ^ 4 \<le> oc \<and>
           Vault.decimals (MintQuoteInput.vault inp) = IntNum dv \<and> 0 \<le> dv \<and>
           Config.decimals (MintQuoteInput.config inp) = IntNum dl \<and> 0 \<le> dl \<and>
           computeMintFee a (mintFeeRate (MintQuoteInput.benefactor inp)) = Inr fee \<and> fee \<le> a \<and>
           mint_computeOracleAmount a oc p (10 ^ nat dl) (10 ^ nat dv) = Inr oa \<and>
           mint_computeOneToOneAmount (a - fee) p (10 ^ nat dl) (10 ^ nat dv) = Inr oo \<and>
           q = \<lparr> MintQuote.amountIn = a, feeAmount = fee, netAmount = a - fee,
                 oracleAmount = oa, oneToOneAmount = oo,
                 mintAmount = (if oa < oo then oa else oo) \<rparr>"
  using assms
  by (auto simp: getMintQuote_def bindE_eq_Inr Let_def ensureNonNegativeInteger_Inr pow10_Inr
      ORACLE_PRICE_DECIMALS_def PEG_PRICE_DECIMALS_def split: if_splits)

lemma getMintQuote_Inr:
  assumes "getMintQuote inp = Inr q"
  shows "\<exists>a p oc mn dv dl r.
           toBigInt (MintQuoteInput.amountIn inp) = Inr a \<and> 0 < a \<and>
           toBigInt (pegPriceUsd (MintQuoteInput.config inp)) = Inr p \<and> 0 < p \<and>
           toBigInt (MintQuoteInput.oraclePriceUsd inp) = Inr oc \<and> 0 < oc \<and>
           toBigInt (minOraclePriceUsd (MintQuoteInput.vault inp)) = Inr mn \<and> mn * 10 ^ 4 \<le> oc \<and>
           Vault.decimals (MintQuoteInput.vault inp) = IntNum dv \<and> 0 \<le> dv \<and>
           Config.decimals (MintQuoteInput.config inp) = IntNum dl \<and> 0 \<le> dl \<and>
           mintFeeRate (MintQuoteInput.benefactor inp) = IntNum r \<and> 0 \<le> r \<and>
           MintQuote.amountIn q = a \<and>
           MintQuote.feeAmount q = (a * r) div 10000 + (if (a * r) mod 10000 \<noteq> 0 then 1 else 0) \<and>
           MintQuote.feeAmount q \<le> a \<and>
           MintQuote.netAmount q = a - MintQuote.feeAmount q \<and>
           MintQuote.oracleAmount q = (a * oc * 10 ^ nat dl * 10 ^ 4) div (p * 10 ^ nat dv * 10 ^ 8) \<and>
           MintQuote.oneToOneAmount q = (MintQuote.netAmount q * 10 ^ 4 * 10 ^ nat dl) div (p * 10 ^ nat dv) \<and>
           mintAmount q = (if MintQuote.oracleAmount q < MintQuote.oneToOneAmount q
                           then MintQuote.oracleAmount q else MintQuote.oneToOneAmount q)"
proof -
  from getMintQuote_Inr_calls[OF assms] obtain a p oc mn dv dl fee oa oo where
    h: "toBigInt (MintQuoteInput.amountIn inp) = Inr a" "0 < a"
       "toBigInt (pegPriceUsd (MintQuoteInput.config inp)) = Inr p" "0 < p"
       "toBigInt (MintQuoteInput.oraclePriceUsd inp) = Inr oc" "0 < oc"
       "toBigInt (minOraclePriceUsd (MintQuoteInput.vault inp)) = Inr mn" "mn * 10 ^ 4 \<le> oc"
       "Vault.decimals (MintQuoteInput.vault inp) = IntNum dv" "0 \<le> dv"
       "Config.decimals (MintQuoteInput.config inp) = IntNum dl" "0 \<le> dl"
    and fee: "computeMintFee a (mintFeeRate (MintQuoteInput.benefactor inp)) = Inr fee" "fee \<le> a"
    and oa: "mint_computeOracleAmount a oc p (10 ^ nat dl) (10 ^ nat dv) = Inr oa"
    and oo: "mint_computeOneToOneAmount (a - fee) p (10 ^ nat dl) (10 ^ nat dv) = Inr oo"
    and q: "q = \<lparr> MintQuote.amountIn = a, feeAmount = fee, netAmount = a - fee,
                 oracleAmount = oa, oneToOneAmount = oo,
                 mintAmount = (if oa < oo then oa else oo) \<rparr>"
    by blast
  from fee(1) h(2) obtain r where r: "mintFeeRate (MintQuoteInput.benefactor inp) = IntNum r" "0 \<le> r"
    and feeq: "fee = (a * r) div 10000 + (if (a * r) mod 10000 \<noteq> 0 then 1 else 0)"
    using computeMintFee_Inr[of a "mintFeeRate (MintQuoteInput.benefactor inp)" fee] by auto
  have oaq: "oa = (a * oc * 10 ^ nat dl * 10 ^ 4) div (p * 10 ^ nat dv * 10 ^ 8)"
    using oa h(2,4,6) mint_computeOracleAmount_pos[of a oc p "10 ^ nat dl" "10 ^ nat dv"] by simp
  have ooq: "oo = ((a - fee) * 10 ^ 4 * 10 ^ nat dl) div (p * 10 ^ nat dv)"
    using oo h(4) fee(2) mint_computeOneToOneAmount_pos[of "a - fee" p "10 ^ nat dl" "10 ^ nat dv"] by simp
  have sel: "MintQuote.amountIn q = a" "MintQuote.feeAmount q = fee" "MintQuote.netAmount q = a - fee"
    "MintQuote.oracleAmount q = oa" "MintQuote.oneToOneAmount q = oo"
    "mintAmount q = (if oa < oo then oa else oo)"
    by (simp_all add: q)
  show ?thesis
    apply (rule exI[of _ a], rule exI[of _ p], rule exI[of _ oc], rule exI[of _ mn],
        rule exI[of _ dv], rule exI[of _ dl], rule exI[of _ r])
    apply (simp only: sel h r fee simp_thms)
    apply (intro conjI)
    using feeq oaq ooq by (simp_all only:)
qed

lemma bindE_eq_Inl: "bindE m f = Inl e \<longleftrightarrow> m = Inl e \<or> (\<exists>v. m = Inr v \<and> f v = Inl e)"
  by (cases m) simp_all

lemma computeRedeemFee_Inr:
  assumes "0 \<le> a"
  shows "computeRedeemFee a rate = Inr fee \<longleftrightarrow>
     (\<exists>r. rate = IntNum r \<and> 0 \<le> r \<and> fee = (a * r) div 10000 + (if (a * r) mod 10000 \<noteq> 0 then 1 else 0))"
  using assms by (auto simp: computeRedeemFee_def BASIS_POINTS_def ceilBigInt_nonneg split: jsnumber.splits)

lemma redeem_computeOracleAmount_pos:
  "0 \<le> a \<Longrightarrow> 0 < oc \<Longrightarrow> 0 < p \<Longrightarrow> 0 < L \<Longrightarrow> 0 < V \<Longrightarrow>
   redeem_computeOracleAmount a oc p L V = Inr ((a * p * V * 10 ^ 8) div (oc * L * 10 ^ 4))"
  by (simp add: redeem_computeOracleAmount_def PEG_PRICE_SCALE_def ORACLE_PRICE_SCALE_def
      PEG_PRICE_DECIMALS_def ORACLE_PRICE_DECIMALS_def bigint_div_nonneg)

lemma redeem_computeOneToOneAmount_pos:
  "0 \<le> n \<Longrightarrow> 0 < p \<Longrightarrow> 0 < L \<Longrightarrow> 0 < V \<Longrightarrow>
   redeem_computeOneToOneAmount n p L V = Inr ((n * p * V) div (10 ^ 4 * L))"
  by (simp add: redeem_computeOneToOneAmount_def PEG_PRICE_SCALE_def
      PEG_PRICE_DECIMALS_def bigint_div_nonneg)

lemma getRedeemQuote_Inr_calls:
  assumes "getRedeemQuote inp = Inr q"
  shows "\<exists>a p oc mn mx dv dl fee oa oo.
           toBigInt (RedeemQuoteInput.amountIn inp) = Inr a \<and> 0 < a \<and>
           toBigInt (pegPriceUsd (RedeemQuoteInput.config inp)) = Inr p \<and> 0 < p \<and>
           toBigInt (RedeemQuoteInput.oraclePriceUsd inp) = Inr oc \<and> 0 < oc \<and>
           toBigInt (minOraclePriceUsd (RedeemQuoteInput.vault inp)) = Inr mn \<and> mn * 10 ^ 4 \<le> oc \<and>
           toBigInt (maxOraclePriceUsd (RedeemQuoteInput.vault inp)) = Inr mx \<and> oc \<le> mx * 10 ^ 4 \<and>
           Vault.decimals (RedeemQuoteInput.vault inp) = IntNum dv \<and> 0 \<le> dv \<and>
           Config.decimals (RedeemQuoteInput.config inp) = IntNum dl \<and> 0 \<le> dl \<and>
           computeRedeemFee a (redeemFeeRate (RedeemQuoteInput.benefactor inp)) = Inr fee \<and> fee \<le> a \<and>
           redeem_computeOracleAmount a oc p (10 ^ nat dl) (10 ^ nat dv) = Inr oa \<and>
           redeem_computeOneToOneAmount (a - fee) p (10 ^ nat dl) (10 ^ nat dv) = Inr oo \<and>
           q = \<lparr> RedeemQuote.amountIn = a, feeAmount = fee, netAmount = a - fee,
                 oracleAmount = oa, oneToOneAmount = oo,
                 redeemAmount = (if oa < oo then oa else oo) \<rparr>"
  using assms
  by (auto simp: getRedeemQuote_def bindE_eq_Inr Let_def ensureNonNegativeInteger_Inr pow10_Inr
      ORACLE_PRICE_DECIMALS_def PEG_PRICE_DECIMALS_def split: if_splits)

lemma getRedeemQuote_Inr:
  assumes "getRedeemQuote inp = Inr q"
  shows "\<exists>a p oc mn mx dv dl r.
           toBigInt (RedeemQuoteInput.amountIn inp) = Inr a \<and> 0 < a \<and>
           toBigInt (pegPriceUsd (RedeemQuoteInput.config inp)) = Inr p \<and> 0 < p \<and>
           toBigInt (RedeemQuoteInput.oraclePriceUsd inp) = Inr oc \<and> 0 < oc \<and>
           toBigInt (minOraclePriceUsd (RedeemQuoteInput.vault inp)) = Inr mn \<and> mn * 10 ^ 4 \<le> oc \<and>
           toBigInt (maxOraclePriceUsd (RedeemQuoteInput.vault inp)) = Inr mx \<and> oc \<le> mx * 10 ^ 4 \<and>
           Vault.decimals (RedeemQuoteInput.vault inp) = IntNum dv \<and> 0 \<le> dv \<and>
           Config.decimals (RedeemQuoteInput.config inp) = IntNum dl \<and> 0 \<le> dl \<and>
           redeemFeeRate (RedeemQuoteInput.benefactor inp) = IntNum r \<and> 0 \<le> r \<and>
           RedeemQuote.amountIn q = a \<and>
           RedeemQuote.feeAmount q = (a * r) div 10000 + (if (a * r) mod 10000 \<noteq> 0 then 1 else 0) \<and>
           RedeemQuote.feeAmount q \<le> a \<and>
           RedeemQuote.netAmount q = a - RedeemQuote.feeAmount q \<and>
           RedeemQuote.oracleAmount q = (a * p * 10 ^ nat dv * 10 ^ 8) div (oc * 10 ^ nat dl * 10 ^ 4) \<and>
           RedeemQuote.oneToOneAmount q = (RedeemQuote.netAmount q * p * 10 ^ nat dv) div (10 ^ 4 * 10 ^ nat dl) \<and>
           redeemAmount q = (if RedeemQuote.oracleAmount q < RedeemQuote.oneToOneAmount q
                           then RedeemQuote.oracleAmount q else RedeemQuote.oneToOneAmount q)"
proof -
  from getRedeemQuote_Inr_calls[OF assms] obtain a p oc mn mx dv dl fee oa oo where
    h: "toBigInt (RedeemQuoteInput.amountIn inp) = Inr a" "0 < a"
       "toBigInt (pegPriceUsd (RedeemQuoteInput.config inp)) = Inr p" "0 < p"
       "toBigInt (RedeemQuoteInput.oraclePriceUsd inp) = Inr oc" "0 < oc"
       "toBigInt (minOraclePriceUsd (RedeemQuoteInput.vault inp)) = Inr mn" "mn * 10 ^ 4 \<le> oc"
       "toBigInt (maxOraclePriceUsd (RedeemQuoteInput.vault inp)) = Inr mx" "oc \<le> mx * 10 ^ 4"
       "Vault.decimals (RedeemQuoteInput.vault inp) = IntNum dv" "0 \<le> dv"
       "Config.decimals (RedeemQuoteInput.config inp) = IntNum dl" "0 \<le> dl"
    and fee: "computeRedeemFee a (redeemFeeRate (RedeemQuoteInput.benefactor inp)) = Inr fee" "fee \<le> a"
    and oa: "redeem_computeOracleAmount a oc p (10 ^ nat dl) (10 ^ nat dv) = Inr oa"
    and oo: "redeem_computeOneToOneAmount (a - fee) p (10 ^ nat dl) (10 ^ nat dv) = Inr oo"
    and q: "q = \<lparr> RedeemQuote.amountIn = a, feeAmount = fee, netAmount = a - fee,
                 oracleAmount = oa, oneToOneAmount = oo,
                 redeemAmount = (if oa < oo then oa else oo) \<rparr>"
    by blast
  from fee(1) h(2) obtain r where r: "redeemFeeRate (RedeemQuoteInput.benefactor inp) = IntNum r" "0 \<le> r"
    and feeq: "fee = (a * r) div 10000 + (if (a * r) mod 10000 \<noteq> 0 then 1 else 0)"
    using computeRedeemFee_Inr[of a "redeemFeeRate (RedeemQuoteInput.benefactor inp)" fee] by auto
  have oaq: "oa = (a * p * 10 ^ nat dv * 10 ^ 8) div (oc * 10 ^ nat dl * 10 ^ 4)"
    using oa h(2,4,6) redeem_computeOracleAmount_pos[of a oc p "10 ^ nat dl" "10 ^ nat dv"] by simp
  have ooq: "oo = ((a - fee) * p * 10 ^ nat dv) div (10 ^ 4 * 10 ^ nat dl)"
    using oo h(4) fee(2) redeem_computeOneToOneAmount_pos[of "a - fee" p "10 ^ nat dl" "10 ^ nat dv"] by simp
  have sel: "RedeemQuote.amountIn q = a" "RedeemQuote.feeAmount q = fee" "RedeemQuote.netAmount q = a - fee"
    "RedeemQuote.oracleAmount q = oa" "RedeemQuote.oneToOneAmount q = oo"
    "redeemAmount q = (if oa < oo then oa else oo)"
    by (simp_all add: q)
  show ?thesis
    apply (rule exI[of _ a], rule exI[of _ p], rule exI[of _ oc], rule exI[of _ mn], rule exI[of _ mx],
        rule exI[of _ dv], rule exI[of _ dl], rule exI[of _ r])
    apply (simp only: sel h r fee simp_thms)
    apply (intro conjI)
    using feeq oaq ooq by (simp_all only:)
qed

text \<open>Forward evaluation of the two quotes once the inputs are read.\<close>

lemma getMintQuote_eval:
  assumes "toBigInt (MintQuoteInput.amountIn inp) = Inr a" "0 < a"
    "toBigInt (pegPriceUsd (MintQuoteInput.config inp)) = Inr p" "0 < p"
    "toBigInt (MintQuoteInput.oraclePriceUsd inp) = Inr oc" "0 < oc"
    "toBigInt (minOraclePriceUsd (MintQuoteInput.vault inp)) = Inr mn"
    "Vault.decimals (MintQuoteInput.vault inp) = IntNum dv" "0 \<le> dv"
    "Config.decimals (MintQuoteInput.config inp) = IntNum dl" "0 \<le> dl"
    "mintFeeRate (MintQuoteInput.benefactor inp) = IntNum r" "0 \<le> r"
    and fee: "fee = (a * r) div 10000 + (if (a * r) mod 10000 \<noteq> 0 then 1 else 0)"
    and oa: "oa = (a * oc * 10 ^ nat dl * 10 ^ 4) div (p * 10 ^ nat dv * 10 ^ 8)"
    and oo: "oo = ((a - fee) * 10 ^ 4 * 10 ^ nat dl) div (p * 10 ^ nat dv)"
  shows "getMintQuote inp =
     (if oc < mn * 10 ^ 4 then Inl OraclePriceOutOfBounds
      else if fee > a then Inl MintFeeExceedsAmount
      else Inr \<lparr> MintQuote.amountIn = a, feeAmount = fee, netAmount = a - fee,
                 oracleAmount = oa, oneToOneAmount = oo,
                 mintAmount = (if oa < oo then oa else oo) \<rparr>)"
proof -
  have f: "computeMintFee a (IntNum r) = Inr fee"
    using assms(2,13) fee by (simp add: computeMintFee_Inr)
  have o1: "mint_computeOracleAmount a oc p (10 ^ nat dl) (10 ^ nat dv) = Inr oa"
    using assms(2,4,6) oa by (simp add: mint_computeOracleAmount_pos)
  have o2: "fee \<le> a \<Longrightarrow> mint_computeOneToOneAmount (a - fee) p (10 ^ nat dl) (10 ^ nat dv) = Inr oo"
    using assms(4) oo by (simp add: mint_computeOneToOneAmount_pos)
  show ?thesis
    using assms(1-13) f o1 o2
    by (simp add: getMintQuote_def Let_def ensureNonNegativeInteger_def pow10_def
      ORACLE_PRICE_DECIMALS_def PEG_PRICE_DECIMALS_def)
qed

lemma getRedeemQuote_eval:
  assumes "toBigInt (RedeemQuoteInput.amountIn inp) = Inr a" "0 < a"
    "toBigInt (pegPriceUsd (RedeemQuoteInput.config inp)) = Inr p" "0 < p"
    "toBigInt (RedeemQuoteInput.oraclePriceUsd inp) = Inr oc" "0 < oc"
    "toBigInt (minOraclePriceUsd (RedeemQuoteInput.vault inp)) = Inr mn"
    "toBigInt (maxOraclePriceUsd (RedeemQuoteInput.vault inp)) = Inr mx"
    "Vault.decimals (RedeemQuoteInput.vault inp) = IntNum dv" "0 \<le> dv"
    "Config.decimals (RedeemQuoteInput.config inp) = IntNum dl" "0 \<le> dl"
    "redeemFeeRate (RedeemQuoteInput.benefactor inp) = IntNum r" "0 \<le> r"
    and fee: "fee = (a * r) div 10000 + (if (a * r) mod 10000 \<noteq> 0 then 1 else 0)"
    and oa: "oa = (a * p * 10 ^ nat dv * 10 ^ 8) div (oc * 10 ^ nat dl * 10 ^ 4)"
    and oo: "oo = ((a - fee) * p * 10 ^ nat dv) div (10 ^ 4 * 10 ^ nat dl)"
  shows "getRedeemQuote inp =
     (if oc < mn * 10 ^ 4 \<or> oc > mx * 10 ^ 4 then Inl OraclePriceOutOfBounds
      else if fee > a then Inl RedeemFeeExceedsAmount
      else Inr \<lparr> RedeemQuote.amountIn = a, feeAmount = fee, netAmount = a - fee,
                 oracleAmount = oa, oneToOneAmount = oo,
                 redeemAmount = (if oa < oo then oa else oo) \<rparr>)"
proof -
  have f: "computeRedeemFee a (IntNum r) = Inr fee"
    using assms(2,14) fee by (simp add: computeRedeemFee_Inr)
  have o1: "redeem_computeOracleAmount a oc p (10 ^ nat dl) (10 ^ nat dv) = Inr oa"
    using assms(2,4,6) oa by (simp add: redeem_computeOracleAmount_pos)
  have o2: "fee \<le> a \<Longrightarrow> redeem_computeOneToOneAmount (a - fee) p (10 ^ nat dl) (10 ^ nat dv) = Inr oo"
    using assms(4) oo by (simp add: redeem_computeOneToOneAmount_pos)
  show ?thesis
    using assms(1-14) f o1 o2
    by (simp add: getRedeemQuote_def Let_def ensureNonNegativeInteger_def pow10_def
      ORACLE_PRICE_DECIMALS_def PEG_PRICE_DECIMALS_def)
qed


section \<open>The two quotes on the scenario input\<close>

lemma scenario_mint_eval: "getMintQuote scenario_mint_input = Inr scenario_mint_quote"
proof -
  have "getMintQuote scenario_mint_input =
     (if (100000000::int) < 9000 * 10 ^ 4 then Inl OraclePriceOutOfBounds
      else if (2500000::int) > 1000000000 then Inl MintFeeExceedsAmount
      else Inr \<lparr> MintQuote.amountIn = 1000000000, feeAmount = 2500000, netAmount = 1000000000 - 2500000,
                 oracleAmount = 1000000000, oneToOneAmount = 997500000,
                 mintAmount = (if (1000000000::int) < 997500000 then 1000000000 else 997500000) \<rparr>)"
    by (rule getMintQuote_eval[where p=10000 and oc=100000000 and dv=6 and dl=6 and r=25])
       (simp_all add: scenario_mint_input_def scenario_config_def scenario_vault_def
          scenario_benefactor_def toBigInt_def)
  then show ?thesis by (simp add: scenario_mint_quote_def)
qed

lemma scenario_redeem_eval: "getRedeemQuote scenario_redeem_input = Inr scenario_redeem_quote"
proof -
  have "getRedeemQuote scenario_redeem_input =
     (if (100000000::int) < 9000 * 10 ^ 4 \<or> (100000000::int) > 11000 * 10 ^ 4 then Inl OraclePriceOutOfBounds
      else if (2500000::int) > 1000000000 then Inl RedeemFeeExceedsAmount
      else Inr \<lparr> RedeemQuote.amountIn = 1000000000, feeAmount = 2500000, netAmount = 1000000000 - 2500000,
                 oracleAmount = 1000000000, oneToOneAmount = 997500000,
                 redeemAmount = (if (1000000000::int) < 997500000 then 1000000000 else 997500000) \<rparr>)"
    by (rule getRedeemQuote_eval[where p=10000 and oc=100000000 and dv=6 and dl=6 and r=25])
       (simp_all add: scenario_redeem_input_def scenario_config_def scenario_vault_def
          scenario_benefactor_def toBigInt_def)
  then show ?thesis by (simp add: scenario_redeem_quote_def)
qed

lemma getMintQuote_mintAmount:
  assumes "getMintQuote inp = Inr q"
  shows "mintAmount q = (if MintQuote.oracleAmount q < MintQuote.oneToOneAmount q
                         then MintQuote.oracleAmount q else MintQuote.oneToOneAmount q)"
proof -
  from getMintQuote_Inr_calls[OF assms] obtain a fee oa oo where
    "q = \<lparr> MintQuote.amountIn = a, feeAmount = fee, netAmount = a - fee,
           oracleAmount = oa, oneToOneAmount = oo,
           mintAmount = (if oa < oo then oa else oo) \<rparr>"
    by blast
  then show ?thesis by simp
qed

lemma getRedeemQuote_redeemAmount:
  assumes "getRedeemQuote inp = Inr q"
  shows "redeemAmount q = (if RedeemQuote.oracleAmount q < RedeemQuote.oneToOneAmount q
                         then RedeemQuote.oracleAmount q else RedeemQuote.oneToOneAmount q)"
proof -
  from getRedeemQuote_Inr_calls[OF assms] obtain a fee oa oo where
    "q = \<lparr> RedeemQuote.amountIn = a, feeAmount = fee, netAmount = a - fee,
           oracleAmount = oa, oneToOneAmount = oo,
           redeemAmount = (if oa < oo then oa else oo) \<rparr>"
    by blast
  then show ?thesis by simp
qed

section \<open>Claims about the pricing engine\<close>

text \<open>
  Claim C1. Whenever \<open>getMintQuote\<close> returns a quote, its \<open>mintAmount\<close> is exactly the
  minimum of the \<open>oracleAmount\<close> and the \<open>oneToOneAmount\<close> of that same quote, and
  whenever \<open>getRedeemQuote\<close> returns a quote, its \<open>redeemAmount\<close> is exactly the
  minimum of the \<open>oracleAmount\<close> and the \<open>oneToOneAmount\<close> of that same quote.
\<close>

theorem quote_amount_is_min:
  "(getMintQuote mi = Inr mq \<longrightarrow>
      mintAmount mq = min (MintQuote.oracleAmount mq) (MintQuote.oneToOneAmount mq)) \<and>
   (getRedeemQuote ri = Inr rq \<longrightarrow>
      redeemAmount rq = min (RedeemQuote.oracleAmount rq) (RedeemQuote.oneToOneAmount rq))"
proof (intro conjI impI)
  assume "getMintQuote mi = Inr mq"
  from getMintQuote_mintAmount[OF this]
  show "mintAmount mq = min (MintQuote.oracleAmount mq) (MintQuote.oneToOneAmount mq)"
    by (simp add: min_def)
next
  assume "getRedeemQuote ri = Inr rq"
  from getRedeemQuote_redeemAmount[OF this]
  show "redeemAmount rq = min (RedeemQuote.oracleAmount rq) (RedeemQuote.oneToOneAmount rq)"
    by (simp add: min_def)
qed

text \<open>Both hypotheses hold on the scenario input, whose quotes are computed above.\<close>

theorem quote_amount_is_min_witness:
  "getMintQuote scenario_mint_input = Inr scenario_mint_quote \<and>
   mintAmount scenario_mint_quote =
     min (MintQuote.oracleAmount scenario_mint_quote) (MintQuote.oneToOneAmount scenario_mint_quote) \<and>
   getRedeemQuote scenario_redeem_input = Inr scenario_redeem_quote \<and>
   redeemAmount scenario_redeem_quote =
     min (RedeemQuote.oracleAmount scenario_redeem_quote) (RedeemQuote.oneToOneAmount scenario_redeem_quote)"
  using quote_amount_is_min[of scenario_mint_input scenario_mint_quote scenario_redeem_input scenario_redeem_quote]
    scenario_mint_eval scenario_redeem_eval
  by simp

text \<open>
  Claim C2, as stated: the \<open>oracleAmount\<close> of a successful mint quote is
  \<open>floor(amountIn * oraclePriceUsd * lpScale * 10^8 / (pegPriceUsd * vaultScale * 10^8))\<close>.
  On the scenario input the source returns \<open>1000000000\<close>, the stated formula gives
  \<open>10000000000000\<close>.
\<close>

theorem mint_oracleAmount_formula_counterexample:
  "getMintQuote scenario_mint_input = Inr scenario_mint_quote \<and>
   MintQuote.oracleAmount scenario_mint_quote \<noteq>
     spec_mint_oracleAmount 1000000000 100000000 10000 6 6"
  using scenario_mint_eval
  by (simp add: scenario_mint_quote_def spec_mint_oracleAmount_def)

text \<open>
  Claim C2, amended: the \<open>oracleAmount\<close> of a successful mint quote is
  \<open>floor(amountIn * oraclePriceUsd * lpScale * 10^4 / (pegPriceUsd * vaultScale * 10^8))\<close>
  with \<open>lpScale = 10^config.decimals\<close> and \<open>vaultScale = 10^vault.decimals\<close>: the
  numerator carries the peg-price scale \<open>10^4\<close>, the denominator the oracle-price
  scale \<open>10^8\<close>.
\<close>

theorem mint_oracleAmount_formula:
  assumes "getMintQuote inp = Inr q"
    and "toBigInt (MintQuoteInput.amountIn inp) = Inr a"
    and "toBigInt (pegPriceUsd (MintQuoteInput.config inp)) = Inr p"
    and "toBigInt (MintQuoteInput.oraclePriceUsd inp) = Inr oc"
    and "Config.decimals (MintQuoteInput.config inp) = IntNum dl"
    and "Vault.decimals (MintQuoteInput.vault inp) = IntNum dv"
  shows "MintQuote.oracleAmount q =
           \<lfloor>(of_int a * of_int oc * 10 ^ nat dl * 10 ^ 4) /
            (of_int p * 10 ^ nat dv * 10 ^ 8 :: real)\<rfloor>"
proof -
  from getMintQuote_Inr[OF assms(1)] assms(2-6)
  have "MintQuote.oracleAmount q = (a * oc * 10 ^ nat dl * 10 ^ 4) div (p * 10 ^ nat dv * 10 ^ 8)"
    by auto
  also have "\<dots> = \<lfloor>(of_int (a * oc * 10 ^ nat dl * 10 ^ 4) :: real) / of_int (p * 10 ^ nat dv * 10 ^ 8)\<rfloor>"
    by (simp only: floor_divide_of_int_eq)
  finally show ?thesis by simp
qed

text \<open>The amended formula on the scenario input.\<close>

theorem mint_oracleAmount_formula_witness:
  "getMintQuote scenario_mint_input = Inr scenario_mint_quote \<and>
   MintQuote.oracleAmount scenario_mint_quote =
     \<lfloor>(1000000000 * 100000000 * 10 ^ 6 * 10 ^ 4) / (10000 * 10 ^ 6 * 10 ^ 8 :: real)\<rfloor>"
  using mint_oracleAmount_formula[of scenario_mint_input scenario_mint_quote
      1000000000 10000 100000000 6 6] scenario_mint_eval
  by (simp add: scenario_mint_input_def scenario_config_def scenario_vault_def toBigInt_def)

text \<open>
  Claim C3. With \<open>config.decimals = 6\<close>, \<open>vault.decimals = 6\<close>,
  \<open>config.pegPriceUsd = 10000\<close>, \<open>oraclePriceUsd = 100000000\<close>,
  \<open>benefactor.mintFeeRate = 25\<close>, \<open>amountIn = 1000000000\<close> and the oracle price not
  below the vault's rescaled minimum, \<open>getMintQuote\<close> succeeds and returns
  \<open>feeAmount = 2500000\<close>, \<open>netAmount = 997500000\<close>, \<open>oracleAmount = 1000000000\<close>,
  \<open>oneToOneAmount = 997500000\<close> and \<open>mintAmount = 997500000\<close>.
\<close>

theorem mint_scenario:
  assumes "toBigInt (MintQuoteInput.amountIn inp) = Inr 1000000000"
    and "Config.decimals (MintQuoteInput.config inp) = IntNum 6"
    and "Vault.decimals (MintQuoteInput.vault inp) = IntNum 6"
    and "toBigInt (pegPriceUsd (MintQuoteInput.config inp)) = Inr 10000"
    and "toBigInt (MintQuoteInput.oraclePriceUsd inp) = Inr 100000000"
    and "mintFeeRate (MintQuoteInput.benefactor inp) = IntNum 25"
    and "toBigInt (minOraclePriceUsd (MintQuoteInput.vault inp)) = Inr mn"
    and "mn * 10 ^ 4 \<le> 100000000"
  shows "getMintQuote inp =
           Inr \<lparr> MintQuote.amountIn = 1000000000, feeAmount = 2500000, netAmount = 997500000,
                 oracleAmount = 1000000000, oneToOneAmount = 997500000,
                 mintAmount = 997500000 \<rparr>"
proof -
  have "getMintQuote inp =
     (if (100000000::int) < mn * 10 ^ 4 then Inl OraclePriceOutOfBounds
      else if (2500000::int) > 1000000000 then Inl MintFeeExceedsAmount
      else Inr \<lparr> MintQuote.amountIn = 1000000000, feeAmount = 2500000,
                 netAmount = 1000000000 - 2500000,
                 oracleAmount = 1000000000, oneToOneAmount = 997500000,
                 mintAmount = (if (1000000000::int) < 997500000 then 1000000000 else 997500000) \<rparr>)"
    by (rule getMintQuote_eval[where p=10000 and oc=100000000 and dv=6 and dl=6 and r=25])
       (simp_all add: assms)
  with assms(8) show ?thesis by simp
qed

text \<open>The scenario input has a vault minimum of \<open>9000\<close>, that is \<open>0.9\<close> dollars.\<close>

theorem mint_scenario_witness:
  "toBigInt (minOraclePriceUsd (MintQuoteInput.vault scenario_mint_input)) = Inr 9000 \<and>
   (9000::int) * 10 ^ 4 \<le> 100000000 \<and>
   getMintQuote scenario_mint_input =
           Inr \<lparr> MintQuote.amountIn = 1000000000, feeAmount = 2500000, netAmount = 997500000,
                 oracleAmount = 1000000000, oneToOneAmount = 997500000,
                 mintAmount = 997500000 \<rparr>"
  using mint_scenario[of scenario_mint_input 9000]
  by (simp add: scenario_mint_input_def scenario_config_def scenario_vault_def
      scenario_benefactor_def toBigInt_def)

text \<open>
  Claim C10. The \<open>oracleAmount\<close> of a successful redeem quote is
  \<open>floor(amountIn * pegPriceUsd * vaultScale * 10^8 / (oraclePriceUsd * lpScale * 10^4))\<close>
  and its \<open>oneToOneAmount\<close> is
  \<open>floor(netAmount * pegPriceUsd * vaultScale / (10^4 * lpScale))\<close>.
\<close>

theorem redeem_amount_formulas:
  assumes "getRedeemQuote inp = Inr q"
    and "toBigInt (RedeemQuoteInput.amountIn inp) = Inr a"
    and "toBigInt (pegPriceUsd (RedeemQuoteInput.config inp)) = Inr p"
    and "toBigInt (RedeemQuoteInput.oraclePriceUsd inp) = Inr oc"
    and "Config.decimals (RedeemQuoteInput.config inp) = IntNum dl"
    and "Vault.decimals (RedeemQuoteInput.vault inp) = IntNum dv"
  shows "RedeemQuote.oracleAmount q =
           \<lfloor>(of_int a * of_int p * 10 ^ nat dv * 10 ^ 8) /
            (of_int oc * 10 ^ nat dl * 10 ^ 4 :: real)\<rfloor> \<and>
         RedeemQuote.oneToOneAmount q =
           \<lfloor>(of_int (RedeemQuote.netAmount q) * of_int p * 10 ^ nat dv) /
            (10 ^ 4 * 10 ^ nat dl :: real)\<rfloor>"
proof -
  from getRedeemQuote_Inr[OF assms(1)] assms(2-6)
  have oa: "RedeemQuote.oracleAmount q = (a * p * 10 ^ nat dv * 10 ^ 8) div (oc * 10 ^ nat dl * 10 ^ 4)"
    and oo: "RedeemQuote.oneToOneAmount q = (RedeemQuote.netAmount q * p * 10 ^ nat dv) div (10 ^ 4 * 10 ^ nat dl)"
    by auto
  have "(a * p * 10 ^ nat dv * 10 ^ 8) div (oc * 10 ^ nat dl * 10 ^ 4)
      = \<lfloor>(of_int (a * p * 10 ^ nat dv * 10 ^ 8) :: real) / of_int (oc * 10 ^ nat dl * 10 ^ 4)\<rfloor>"
    by (simp only: floor_divide_of_int_eq)
  with oa have 1: "RedeemQuote.oracleAmount q =
           \<lfloor>(of_int a * of_int p * 10 ^ nat dv * 10 ^ 8) /
            (of_int oc * 10 ^ nat dl * 10 ^ 4 :: real)\<rfloor>"
    by simp
  have "(RedeemQuote.netAmount q * p * 10 ^ nat dv) div (10 ^ 4 * 10 ^ nat dl)
      = \<lfloor>(of_int (RedeemQuote.netAmount q * p * 10 ^ nat dv) :: real) / of_int (10 ^ 4 * 10 ^ nat dl)\<rfloor>"
    by (simp only: floor_divide_of_int_eq)
  with oo have 2: "RedeemQuote.oneToOneAmount q =
           \<lfloor>(of_int (RedeemQuote.netAmount q) * of_int p * 10 ^ nat dv) /
            (10 ^ 4 * 10 ^ nat dl :: real)\<rfloor>"
    by simp
  from 1 2 show ?thesis by (rule conjI)
qed

text \<open>Both formulas on the scenario input.\<close>

theorem redeem_amount_formulas_witness:
  "getRedeemQuote scenario_redeem_input = Inr scenario_redeem_quote \<and>
   RedeemQuote.oracleAmount scenario_redeem_quote =
     \<lfloor>(1000000000 * 10000 * 10 ^ 6 * 10 ^ 8) / (100000000 * 10 ^ 6 * 10 ^ 4 :: real)\<rfloor> \<and>
   RedeemQuote.oneToOneAmount scenario_redeem_quote =
     \<lfloor>(997500000 * 10000 * 10 ^ 6) / (10 ^ 4 * 10 ^ 6 :: real)\<rfloor>"
  using redeem_amount_formulas[of scenario_redeem_input scenario_redeem_quote
      1000000000 10000 100000000 6 6] scenario_redeem_eval
  by (simp add: scenario_redeem_input_def scenario_config_def scenario_vault_def toBigInt_def
      scenario_redeem_quote_def)

section \<open>Oracle price at peg\<close>

lemma half_peg_mint_eval: "getMintQuote half_peg_mint_input = Inr half_peg_mint_quote"
proof -
  have "getMintQuote half_peg_mint_input =
     (if (50000000::int) < 4000 * 10 ^ 4 then Inl OraclePriceOutOfBounds
      else if (0::int) > 1000000 then Inl MintFeeExceedsAmount
      else Inr \<lparr> MintQuote.amountIn = 1000000, feeAmount = 0, netAmount = 1000000 - 0,
                 oracleAmount = 1000000, oneToOneAmount = 2000000,
                 mintAmount = (if (1000000::int) < 2000000 then 1000000 else 2000000) \<rparr>)"
    by (rule getMintQuote_eval[where p=5000 and oc=50000000 and dv=6 and dl=6 and r=0])
       (simp_all add: half_peg_mint_input_def toBigInt_def)
  then show ?thesis by (simp add: half_peg_mint_quote_def)
qed

text \<open>
  Claim C9, as stated: when the oracle price equals the peg price rescaled to eight
  decimals, \<open>oracleAmount\<close> and \<open>oneToOneAmount\<close> of a successful mint quote differ
  by at most one unit. It fails on the scenario input, where the fee separates the two
  (the oracle amount is computed from \<open>amountIn\<close>, the one-to-one amount from
  \<open>netAmount\<close>), and it fails without any fee when the peg is not one dollar (the
  one-to-one amount divides by the peg, the oracle amount at peg does not depend on it).
\<close>

theorem oracle_at_peg_counterexample:
  "getMintQuote scenario_mint_input = Inr scenario_mint_quote \<and>
   toBigInt (pegPriceUsd (MintQuoteInput.config scenario_mint_input)) = Inr 10000 \<and>
   toBigInt (MintQuoteInput.oraclePriceUsd scenario_mint_input) = Inr (10000 * 10 ^ 4) \<and>
   \<not> \<bar>MintQuote.oracleAmount scenario_mint_quote - MintQuote.oneToOneAmount scenario_mint_quote\<bar> \<le> 1 \<and>
   getMintQuote half_peg_mint_input = Inr half_peg_mint_quote \<and>
   toBigInt (pegPriceUsd (MintQuoteInput.config half_peg_mint_input)) = Inr 5000 \<and>
   toBigInt (MintQuoteInput.oraclePriceUsd half_peg_mint_input) = Inr (5000 * 10 ^ 4) \<and>
   MintQuote.feeAmount half_peg_mint_quote = 0 \<and>
   \<not> \<bar>MintQuote.oracleAmount half_peg_mint_quote - MintQuote.oneToOneAmount half_peg_mint_quote\<bar> \<le> 1"
  using scenario_mint_eval half_peg_mint_eval
  by (simp add: scenario_mint_input_def scenario_config_def toBigInt_def scenario_mint_quote_def
      half_peg_mint_input_def half_peg_mint_quote_def)

text \<open>
  Claim C9, amended: on a successful mint quote whose oracle price equals the peg price
  rescaled to eight decimals, whose peg price is exactly one dollar
  (\<open>pegPriceUsd = 10^4\<close>) and whose fee is zero, \<open>oracleAmount\<close> and
  \<open>oneToOneAmount\<close> are equal, hence within one unit of each other.
\<close>

theorem oracle_at_unit_peg:
  assumes "getMintQuote inp = Inr q"
    and "toBigInt (pegPriceUsd (MintQuoteInput.config inp)) = Inr p"
    and "toBigInt (MintQuoteInput.oraclePriceUsd inp) = Inr (p * 10 ^ 4)"
    and "p = 10 ^ 4"
    and "MintQuote.feeAmount q = 0"
  shows "MintQuote.oracleAmount q = MintQuote.oneToOneAmount q \<and>
         \<bar>MintQuote.oracleAmount q - MintQuote.oneToOneAmount q\<bar> \<le> 1"
proof -
  from getMintQuote_Inr[OF assms(1)] assms(2,3,5) obtain a dl dv where
    oa: "MintQuote.oracleAmount q = (a * (p * 10 ^ 4) * 10 ^ nat dl * 10 ^ 4) div (p * 10 ^ nat dv * 10 ^ 8)"
    and oo: "MintQuote.oneToOneAmount q = (a * 10 ^ 4 * 10 ^ nat dl) div (p * 10 ^ nat dv)"
    by auto
  have "(a * (p * 10 ^ 4) * 10 ^ nat dl * 10 ^ 4) div (p * 10 ^ nat dv * 10 ^ 8)
      = ((a * 10 ^ 4 * 10 ^ nat dl) * 10 ^ 8) div ((p * 10 ^ nat dv) * 10 ^ 8)"
    using assms(4) by simp
  also have "\<dots> = (a * 10 ^ 4 * 10 ^ nat dl) div (p * 10 ^ nat dv)"
    by (rule div_mult_mult2) simp
  finally show ?thesis using oa oo by simp
qed


lemma feeless_mint_eval: "getMintQuote feeless_mint_input = Inr feeless_mint_quote"
proof -
  have "getMintQuote feeless_mint_input =
     (if (100000000::int) < 9000 * 10 ^ 4 then Inl OraclePriceOutOfBounds
      else if (0::int) > 1000000000 then Inl MintFeeExceedsAmount
      else Inr \<lparr> MintQuote.amountIn = 1000000000, feeAmount = 0, netAmount = 1000000000 - 0,
                 oracleAmount = 1000000000, oneToOneAmount = 1000000000,
                 mintAmount = (if (1000000000::int) < 1000000000 then 1000000000 else 1000000000) \<rparr>)"
    by (rule getMintQuote_eval[where p=10000 and oc=100000000 and dv=6 and dl=6 and r=0])
       (simp_all add: feeless_mint_input_def scenario_config_def scenario_vault_def toBigInt_def)
  then show ?thesis by (simp add: feeless_mint_quote_def)
qed


lemma feeless_peg: "toBigInt (pegPriceUsd (MintQuoteInput.config feeless_mint_input)) = Inr 10000"
  by (simp add: feeless_mint_input_def scenario_config_def toBigInt_def)

lemma feeless_oracle: "toBigInt (MintQuoteInput.oraclePriceUsd feeless_mint_input) = Inr (10000 * 10 ^ 4)"
  by (simp add: feeless_mint_input_def toBigInt_def)

lemma feeless_fee: "MintQuote.feeAmount feeless_mint_quote = 0"
  by (simp add: feeless_mint_quote_def)

text \<open>A fee-free mint at a peg of one dollar and an oracle price of one dollar.\<close>

theorem oracle_at_unit_peg_witness:
  "getMintQuote feeless_mint_input = Inr feeless_mint_quote \<and>
   toBigInt (pegPriceUsd (MintQuoteInput.config feeless_mint_input)) = Inr 10000 \<and>
   toBigInt (MintQuoteInput.oraclePriceUsd feeless_mint_input) = Inr (10000 * 10 ^ 4) \<and>
   (10000::int) = 10 ^ 4 \<and>
   MintQuote.feeAmount feeless_mint_quote = 0 \<and>
   MintQuote.oracleAmount feeless_mint_quote = MintQuote.oneToOneAmount feeless_mint_quote \<and>
   \<bar>MintQuote.oracleAmount feeless_mint_quote - MintQuote.oneToOneAmount feeless_mint_quote\<bar> \<le> 1"
proof -
  have p: "(10000::int) = 10 ^ 4" by simp
  note r = oracle_at_unit_peg[OF feeless_mint_eval feeless_peg feeless_oracle p feeless_fee]
  show ?thesis
    using feeless_mint_eval feeless_peg feeless_oracle p feeless_fee r
    by (intro conjI) (simp_all only:)
qed

section \<open>Fees and the errors each step can raise\<close>

lemma fee_le_amount:
  fixes a r :: int
  assumes "0 \<le> a" "0 \<le> r" "r \<le> 10000"
  shows "(a * r) div 10000 + (if (a * r) mod 10000 \<noteq> 0 then 1 else 0) \<le> a"
proof -
  have le: "a * r \<le> a * 10000"
    using assms by (simp add: mult_left_mono)
  show ?thesis
  proof (cases "(a * r) mod 10000 = 0")
    case True
    have "(a * r) div 10000 \<le> (a * 10000) div 10000"
      using le by (rule zdiv_mono1) simp
    with True show ?thesis by simp
  next
    case False
    then have ne: "a * r \<noteq> a * 10000" by auto
    have "a * r < a * 10000"
      unfolding less_le using le ne by (rule conjI)
    then have "(a * r) div 10000 < a"
      by (simp add: div_less_iff_less_mult)
    with False show ?thesis by simp
  qed
qed

lemma toBigInt_Inl: "toBigInt v = Inl e \<Longrightarrow> e = NotFiniteInteger"
  by (auto simp: toBigInt_def split: numeric.splits jsnumber.splits)

lemma ensureNonNegativeInteger_Inl:
  "ensureNonNegativeInteger v f = Inl e \<Longrightarrow> e = NotNonNegativeInteger f"
  by (auto simp: ensureNonNegativeInteger_def split: jsnumber.splits if_splits)

lemma pow10_Inl: "pow10 v = Inl e \<Longrightarrow> e = DecimalExponentInvalid"
  by (auto simp: pow10_def split: jsnumber.splits if_splits)

lemma ceilBigInt_BASIS_POINTS:
  "ceilBigInt n BASIS_POINTS =
     Inr (n sdiv 10000 + (if n smod 10000 \<noteq> 0 then 1 else 0))"
  by (simp add: ceilBigInt_def bigint_div_def bigint_rem_def BASIS_POINTS_def)

lemma computeMintFee_Inl:
  "computeMintFee a r = Inl e \<Longrightarrow> e = NotNonNegativeInteger ''mintFeeRate''"
  by (auto simp: computeMintFee_def ceilBigInt_BASIS_POINTS split: jsnumber.splits if_splits)

lemma computeRedeemFee_Inl:
  "computeRedeemFee a r = Inl e \<Longrightarrow> e = NotNonNegativeInteger ''redeemFeeRate''"
  by (auto simp: computeRedeemFee_def ceilBigInt_BASIS_POINTS split: jsnumber.splits if_splits)

lemma mint_computeOracleAmount_Inl:
  "mint_computeOracleAmount a oc p L V = Inl e \<Longrightarrow> e = PegPriceZero \<or> e = RangeErrorDivisionByZero"
  by (auto simp: mint_computeOracleAmount_def bigint_div_def split: if_splits)

lemma mint_computeOneToOneAmount_Inl:
  "mint_computeOneToOneAmount n p L V = Inl e \<Longrightarrow> e = PegPriceZero \<or> e = RangeErrorDivisionByZero"
  by (auto simp: mint_computeOneToOneAmount_def bigint_div_def split: if_splits)

lemma redeem_computeOracleAmount_Inl:
  "redeem_computeOracleAmount a oc p L V = Inl e \<Longrightarrow> e = OraclePriceZero \<or> e = RangeErrorDivisionByZero"
  by (auto simp: redeem_computeOracleAmount_def bigint_div_def split: if_splits)

lemma redeem_computeOneToOneAmount_Inl:
  "redeem_computeOneToOneAmount n p L V = Inl e \<Longrightarrow> e = PegPriceZero \<or> e = RangeErrorDivisionByZero"
  by (auto simp: redeem_computeOneToOneAmount_def bigint_div_def split: if_splits)

lemma getMintQuote_fee_exceeds:
  assumes "getMintQuote inp = Inl MintFeeExceedsAmount"
  shows "\<exists>a fee. 0 < a \<and> computeMintFee a (mintFeeRate (MintQuoteInput.benefactor inp)) = Inr fee \<and> a < fee"
  using assms
  apply (auto simp: getMintQuote_def bindE_eq_Inl Let_def
      dest: toBigInt_Inl ensureNonNegativeInteger_Inl pow10_Inl computeMintFee_Inl
        mint_computeOracleAmount_Inl mint_computeOneToOneAmount_Inl
      split: if_splits)
  apply (meson not_le less_imp_le)
  done

lemma getRedeemQuote_fee_exceeds:
  assumes "getRedeemQuote inp = Inl RedeemFeeExceedsAmount"
  shows "\<exists>a fee. 0 < a \<and> computeRedeemFee a (redeemFeeRate (RedeemQuoteInput.benefactor inp)) = Inr fee \<and> a < fee"
  using assms
  apply (auto simp: getRedeemQuote_def bindE_eq_Inl Let_def
      dest: toBigInt_Inl ensureNonNegativeInteger_Inl pow10_Inl computeRedeemFee_Inl
        redeem_computeOracleAmount_Inl redeem_computeOneToOneAmount_Inl
      split: if_splits)
  apply (meson not_le less_imp_le)
  done

section \<open>Fee rounding\<close>

lemma full_fee_mint_eval: "getMintQuote full_fee_mint_input = Inr full_fee_mint_quote"
proof -
  have "getMintQuote full_fee_mint_input =
     (if (100000000::int) < 9000 * 10 ^ 4 then Inl OraclePriceOutOfBounds
      else if (1000000::int) > 1000000 then Inl MintFeeExceedsAmount
      else Inr \<lparr> MintQuote.amountIn = 1000000, feeAmount = 1000000, netAmount = 1000000 - 1000000,
                 oracleAmount = 1000000, oneToOneAmount = 0,
                 mintAmount = (if (1000000::int) < 0 then 1000000 else 0) \<rparr>)"
    by (rule getMintQuote_eval[where p=10000 and oc=100000000 and dv=6 and dl=6 and r=10000])
       (simp_all add: full_fee_mint_input_def full_fee_benefactor_def scenario_config_def
          scenario_vault_def toBigInt_def)
  then show ?thesis by (simp add: full_fee_mint_quote_def)
qed

lemma full_fee_redeem_eval: "getRedeemQuote full_fee_redeem_input = Inr full_fee_redeem_quote"
proof -
  have "getRedeemQuote full_fee_redeem_input =
     (if (100000000::int) < 9000 * 10 ^ 4 \<or> (100000000::int) > 11000 * 10 ^ 4 then Inl OraclePriceOutOfBounds
      else if (1000000::int) > 1000000 then Inl RedeemFeeExceedsAmount
      else Inr \<lparr> RedeemQuote.amountIn = 1000000, feeAmount = 1000000, netAmount = 1000000 - 1000000,
                 oracleAmount = 1000000, oneToOneAmount = 0,
                 redeemAmount = (if (1000000::int) < 0 then 1000000 else 0) \<rparr>)"
    by (rule getRedeemQuote_eval[where p=10000 and oc=100000000 and dv=6 and dl=6 and r=10000])
       (simp_all add: full_fee_redeem_input_def full_fee_benefactor_def scenario_config_def
          scenario_vault_def toBigInt_def)
  then show ?thesis by (simp add: full_fee_redeem_quote_def)
qed

lemma computeMintFee_ceiling:
  assumes "0 \<le> a" "0 \<le> r"
  shows "computeMintFee a (IntNum r) = Inr \<lceil>(of_int a * of_int r) / (10000::real)\<rceil>"
proof -
  have "computeMintFee a (IntNum r) = Inr ((a * r) div 10000 + (if (a * r) mod 10000 \<noteq> 0 then 1 else 0))"
    using assms by (simp add: computeMintFee_Inr)
  also have "(a * r) div 10000 + (if (a * r) mod 10000 \<noteq> 0 then 1 else 0)
      = \<lceil>of_int (a * r) / (of_int 10000 :: real)\<rceil>"
    by (rule ceil_div_int) simp
  finally show ?thesis by simp
qed

lemma computeRedeemFee_ceiling:
  assumes "0 \<le> a" "0 \<le> r"
  shows "computeRedeemFee a (IntNum r) = Inr \<lceil>(of_int a * of_int r) / (10000::real)\<rceil>"
proof -
  have "computeRedeemFee a (IntNum r) = Inr ((a * r) div 10000 + (if (a * r) mod 10000 \<noteq> 0 then 1 else 0))"
    using assms by (simp add: computeRedeemFee_Inr)
  also have "(a * r) div 10000 + (if (a * r) mod 10000 \<noteq> 0 then 1 else 0)
      = \<lceil>of_int (a * r) / (of_int 10000 :: real)\<rceil>"
    by (rule ceil_div_int) simp
  finally show ?thesis by simp
qed

lemma ceiling_fee_le:
  fixes a r :: int
  assumes "0 \<le> a" "0 \<le> r" "r \<le> 10000"
  shows "\<lceil>(of_int a * of_int r) / (10000::real)\<rceil> \<le> a"
proof -
  have "\<lceil>of_int (a * r) / (of_int 10000 :: real)\<rceil>
      = (a * r) div 10000 + (if (a * r) mod 10000 \<noteq> 0 then 1 else 0)"
    by (rule ceil_div_int[symmetric]) simp
  with fee_le_amount[OF assms] show ?thesis by simp
qed

lemma mint_fee_branch_unreachable:
  assumes "0 \<le> r" "r \<le> 10000" "mintFeeRate (MintQuoteInput.benefactor mi) = IntNum r"
  shows "getMintQuote mi \<noteq> Inl MintFeeExceedsAmount"
proof
  assume "getMintQuote mi = Inl MintFeeExceedsAmount"
  from getMintQuote_fee_exceeds[OF this] assms(3) obtain a fee where
    a: "0 < a" and f: "computeMintFee a (IntNum r) = Inr fee" and lt: "a < fee"
    by auto
  from a f assms(1) have "fee = (a * r) div 10000 + (if (a * r) mod 10000 \<noteq> 0 then 1 else 0)"
    by (simp add: computeMintFee_Inr)
  with fee_le_amount[of a r] a assms(1,2) have "fee \<le> a" by simp
  with lt show False by simp
qed

lemma redeem_fee_branch_unreachable:
  assumes "0 \<le> r" "r \<le> 10000" "redeemFeeRate (RedeemQuoteInput.benefactor ri) = IntNum r"
  shows "getRedeemQuote ri \<noteq> Inl RedeemFeeExceedsAmount"
proof
  assume "getRedeemQuote ri = Inl RedeemFeeExceedsAmount"
  from getRedeemQuote_fee_exceeds[OF this] assms(3) obtain a fee where
    a: "0 < a" and f: "computeRedeemFee a (IntNum r) = Inr fee" and lt: "a < fee"
    by auto
  from a f assms(1) have "fee = (a * r) div 10000 + (if (a * r) mod 10000 \<noteq> 0 then 1 else 0)"
    by (simp add: computeRedeemFee_Inr)
  with fee_le_amount[of a r] a assms(1,2) have "fee \<le> a" by simp
  with lt show False by simp
qed

lemma mint_full_fee_net:
  assumes "mintFeeRate (MintQuoteInput.benefactor mi) = IntNum 10000" "getMintQuote mi = Inr mq"
  shows "MintQuote.feeAmount mq = MintQuote.amountIn mq \<and> MintQuote.netAmount mq = 0"
proof -
  from getMintQuote_Inr[OF assms(2)] assms(1) obtain a where
    "MintQuote.amountIn mq = a"
    "MintQuote.feeAmount mq = (a * 10000) div 10000 + (if (a * 10000) mod 10000 \<noteq> 0 then 1 else 0)"
    "MintQuote.netAmount mq = a - MintQuote.feeAmount mq"
    by auto
  then show ?thesis by simp
qed

lemma redeem_full_fee_net:
  assumes "redeemFeeRate (RedeemQuoteInput.benefactor ri) = IntNum 10000" "getRedeemQuote ri = Inr rq"
  shows "RedeemQuote.feeAmount rq = RedeemQuote.amountIn rq \<and> RedeemQuote.netAmount rq = 0"
proof -
  from getRedeemQuote_Inr[OF assms(2)] assms(1) obtain a where
    "RedeemQuote.amountIn rq = a"
    "RedeemQuote.feeAmount rq = (a * 10000) div 10000 + (if (a * 10000) mod 10000 \<noteq> 0 then 1 else 0)"
    "RedeemQuote.netAmount rq = a - RedeemQuote.feeAmount rq"
    by auto
  then show ?thesis by simp
qed

text \<open>
  Claim C6. For every amount \<open>a \<ge> 0\<close> and every fee rate \<open>r\<close> with
  \<open>0 \<le> r \<le> 10000\<close>, the computed mint fee and redeem fee equal
  \<open>ceil(a * r / 10000)\<close> and do not exceed \<open>a\<close>; at \<open>r = 10000\<close> the fee equals
  \<open>a\<close> and a returned quote has \<open>feeAmount = amountIn\<close> and \<open>netAmount = 0\<close>; and
  with such a rate neither \<open>getMintQuote\<close> nor \<open>getRedeemQuote\<close> can fail with its
  "fee exceeds the provided amount" error.
\<close>

theorem fee_is_ceiling_and_bounded:
  assumes "0 \<le> a" and "0 \<le> r" and "r \<le> 10000"
  shows "computeMintFee a (IntNum r) = Inr \<lceil>(of_int a * of_int r) / (10000::real)\<rceil> \<and>
         computeRedeemFee a (IntNum r) = Inr \<lceil>(of_int a * of_int r) / (10000::real)\<rceil> \<and>
         \<lceil>(of_int a * of_int r) / (10000::real)\<rceil> \<le> a \<and>
         (mintFeeRate (MintQuoteInput.benefactor mi) = IntNum r \<longrightarrow>
            getMintQuote mi \<noteq> Inl MintFeeExceedsAmount) \<and>
         (redeemFeeRate (RedeemQuoteInput.benefactor ri) = IntNum r \<longrightarrow>
            getRedeemQuote ri \<noteq> Inl RedeemFeeExceedsAmount) \<and>
         (r = 10000 \<longrightarrow>
            computeMintFee a (IntNum r) = Inr a \<and> computeRedeemFee a (IntNum r) = Inr a) \<and>
         (r = 10000 \<and> mintFeeRate (MintQuoteInput.benefactor mi) = IntNum r \<and>
          getMintQuote mi = Inr mq \<longrightarrow>
            MintQuote.feeAmount mq = MintQuote.amountIn mq \<and> MintQuote.netAmount mq = 0) \<and>
         (r = 10000 \<and> redeemFeeRate (RedeemQuoteInput.benefactor ri) = IntNum r \<and>
          getRedeemQuote ri = Inr rq \<longrightarrow>
            RedeemQuote.feeAmount rq = RedeemQuote.amountIn rq \<and> RedeemQuote.netAmount rq = 0)"
proof (intro conjI impI)
  show "computeMintFee a (IntNum r) = Inr \<lceil>(of_int a * of_int r) / (10000::real)\<rceil>"
    using assms(1,2) by (rule computeMintFee_ceiling)
  show "computeRedeemFee a (IntNum r) = Inr \<lceil>(of_int a * of_int r) / (10000::real)\<rceil>"
    using assms(1,2) by (rule computeRedeemFee_ceiling)
  show "\<lceil>(of_int a * of_int r) / (10000::real)\<rceil> \<le> a"
    using assms by (rule ceiling_fee_le)
  show "getMintQuote mi \<noteq> Inl MintFeeExceedsAmount"
    if "mintFeeRate (MintQuoteInput.benefactor mi) = IntNum r"
    using assms(2,3) that by (rule mint_fee_branch_unreachable)
  show "getRedeemQuote ri \<noteq> Inl RedeemFeeExceedsAmount"
    if "redeemFeeRate (RedeemQuoteInput.benefactor ri) = IntNum r"
    using assms(2,3) that by (rule redeem_fee_branch_unreachable)
  show "computeMintFee a (IntNum r) = Inr a" if "r = 10000"
    using assms(1) that by (simp add: computeMintFee_Inr)
  show "computeRedeemFee a (IntNum r) = Inr a" if "r = 10000"
    using assms(1) that by (simp add: computeRedeemFee_Inr)
  show "MintQuote.feeAmount mq = MintQuote.amountIn mq"
    if "r = 10000 \<and> mintFeeRate (MintQuoteInput.benefactor mi) = IntNum r \<and> getMintQuote mi = Inr mq"
    using mint_full_fee_net[of mi mq] that by simp
  show "MintQuote.netAmount mq = 0"
    if "r = 10000 \<and> mintFeeRate (MintQuoteInput.benefactor mi) = IntNum r \<and> getMintQuote mi = Inr mq"
    using mint_full_fee_net[of mi mq] that by simp
  show "RedeemQuote.feeAmount rq = RedeemQuote.amountIn rq"
    if "r = 10000 \<and> redeemFeeRate (RedeemQuoteInput.benefactor ri) = IntNum r \<and> getRedeemQuote ri = Inr rq"
    using redeem_full_fee_net[of ri rq] that by simp
  show "RedeemQuote.netAmount rq = 0"
    if "r = 10000 \<and> redeemFeeRate (RedeemQuoteInput.benefactor ri) = IntNum r \<and> getRedeemQuote ri = Inr rq"
    using redeem_full_fee_net[of ri rq] that by simp
qed

text \<open>An amount of \<open>1000000\<close> at the full rate of \<open>10000\<close> basis points.\<close>

theorem fee_is_ceiling_and_bounded_witness:
  "(0::int) \<le> 1000000 \<and> (0::int) \<le> 10000 \<and> (10000::int) \<le> 10000 \<and>
   mintFeeRate (MintQuoteInput.benefactor full_fee_mint_input) = IntNum 10000 \<and>
   redeemFeeRate (RedeemQuoteInput.benefactor full_fee_redeem_input) = IntNum 10000 \<and>
   getMintQuote full_fee_mint_input = Inr full_fee_mint_quote \<and>
   getRedeemQuote full_fee_redeem_input = Inr full_fee_redeem_quote \<and>
   computeMintFee 1000000 (IntNum 10000) = Inr 1000000 \<and>
   computeRedeemFee 1000000 (IntNum 10000) = Inr 1000000 \<and>
   getMintQuote full_fee_mint_input \<noteq> Inl MintFeeExceedsAmount \<and>
   getRedeemQuote full_fee_redeem_input \<noteq> Inl RedeemFeeExceedsAmount \<and>
   MintQuote.feeAmount full_fee_mint_quote = MintQuote.amountIn full_fee_mint_quote \<and>
   MintQuote.netAmount full_fee_mint_quote = 0 \<and>
   RedeemQuote.feeAmount full_fee_redeem_quote = RedeemQuote.amountIn full_fee_redeem_quote \<and>
   RedeemQuote.netAmount full_fee_redeem_quote = 0"
proof -
  have h: "(0::int) \<le> 1000000" "(0::int) \<le> 10000" "(10000::int) \<le> 10000"
    by simp_all
  have m: "mintFeeRate (MintQuoteInput.benefactor full_fee_mint_input) = IntNum 10000"
    by (simp add: full_fee_mint_input_def full_fee_benefactor_def)
  have r: "redeemFeeRate (RedeemQuoteInput.benefactor full_fee_redeem_input) = IntNum 10000"
    by (simp add: full_fee_redeem_input_def full_fee_benefactor_def)
  note t = fee_is_ceiling_and_bounded[OF h, of full_fee_mint_input full_fee_redeem_input
      full_fee_mint_quote full_fee_redeem_quote]
  from t m r full_fee_mint_eval full_fee_redeem_eval h show ?thesis
    by blast
qed

section \<open>Oracle price bounds\<close>

lemma getMintQuote_bounds_iff:
  assumes "toBigInt (MintQuoteInput.amountIn mi) = Inr a" "0 < a"
    "toBigInt (pegPriceUsd (MintQuoteInput.config mi)) = Inr p" "0 < p"
    "toBigInt (MintQuoteInput.oraclePriceUsd mi) = Inr oc" "0 < oc"
    "toBigInt (minOraclePriceUsd (MintQuoteInput.vault mi)) = Inr mn"
  shows "(getMintQuote mi = Inl OraclePriceOutOfBounds) = (oc < mn * 10 ^ 4)"
proof (cases "oc < mn * 10 ^ 4")
  case True
  with assms show ?thesis
    by (simp add: getMintQuote_def ORACLE_PRICE_DECIMALS_def PEG_PRICE_DECIMALS_def)
next
  case False
  have "getMintQuote mi \<noteq> Inl OraclePriceOutOfBounds"
  proof
    assume "getMintQuote mi = Inl OraclePriceOutOfBounds"
    with assms False show False
      by (auto simp: getMintQuote_def bindE_eq_Inl Let_def
          ORACLE_PRICE_DECIMALS_def PEG_PRICE_DECIMALS_def
          dest: ensureNonNegativeInteger_Inl pow10_Inl computeMintFee_Inl
            mint_computeOracleAmount_Inl mint_computeOneToOneAmount_Inl
          split: if_splits)
  qed
  with False show ?thesis by simp
qed

lemma getRedeemQuote_bounds_iff:
  assumes "toBigInt (RedeemQuoteInput.amountIn ri) = Inr a" "0 < a"
    "toBigInt (pegPriceUsd (RedeemQuoteInput.config ri)) = Inr p" "0 < p"
    "toBigInt (RedeemQuoteInput.oraclePriceUsd ri) = Inr oc" "0 < oc"
    "toBigInt (minOraclePriceUsd (RedeemQuoteInput.vault ri)) = Inr mn"
    "toBigInt (maxOraclePriceUsd (RedeemQuoteInput.vault ri)) = Inr mx"
  shows "(getRedeemQuote ri = Inl OraclePriceOutOfBounds) = (oc < mn * 10 ^ 4 \<or> mx * 10 ^ 4 < oc)"
proof (cases "oc < mn * 10 ^ 4 \<or> mx * 10 ^ 4 < oc")
  case True
  with assms show ?thesis
    by (auto simp: getRedeemQuote_def ORACLE_PRICE_DECIMALS_def PEG_PRICE_DECIMALS_def)
next
  case False
  have "getRedeemQuote ri \<noteq> Inl OraclePriceOutOfBounds"
  proof
    assume "getRedeemQuote ri = Inl OraclePriceOutOfBounds"
    with assms False show False
      by (auto simp: getRedeemQuote_def bindE_eq_Inl Let_def
          ORACLE_PRICE_DECIMALS_def PEG_PRICE_DECIMALS_def
          dest: ensureNonNegativeInteger_Inl pow10_Inl computeRedeemFee_Inl
            redeem_computeOracleAmount_Inl redeem_computeOneToOneAmount_Inl
          split: if_splits)
  qed
  with False show ?thesis by simp
qed

lemma getMintQuote_succeeds_iff:
  assumes "toBigInt (MintQuoteInput.amountIn mi) = Inr a" "0 < a"
    "toBigInt (pegPriceUsd (MintQuoteInput.config mi)) = Inr p" "0 < p"
    "toBigInt (MintQuoteInput.oraclePriceUsd mi) = Inr oc" "0 < oc"
    "toBigInt (minOraclePriceUsd (MintQuoteInput.vault mi)) = Inr mn"
    "Vault.decimals (MintQuoteInput.vault mi) = IntNum dv" "0 \<le> dv"
    "Config.decimals (MintQuoteInput.config mi) = IntNum dl" "0 \<le> dl"
    "mintFeeRate (MintQuoteInput.benefactor mi) = IntNum r" "0 \<le> r" "r \<le> 10000"
  shows "(\<exists>q. getMintQuote mi = Inr q) = (mn * 10 ^ 4 \<le> oc)"
proof -
  define fee where "fee = (a * r) div 10000 + (if (a * r) mod 10000 \<noteq> 0 then 1 else 0)"
  have le: "fee \<le> a"
    unfolding fee_def using assms(2,13,14) by (intro fee_le_amount) simp_all
  note ev = getMintQuote_eval[OF assms(1-13) fee_def refl refl]
  show ?thesis
    unfolding ev using le by simp
qed

lemma getRedeemQuote_succeeds_iff:
  assumes "toBigInt (RedeemQuoteInput.amountIn ri) = Inr a" "0 < a"
    "toBigInt (pegPriceUsd (RedeemQuoteInput.config ri)) = Inr p" "0 < p"
    "toBigInt (RedeemQuoteInput.oraclePriceUsd ri) = Inr oc" "0 < oc"
    "toBigInt (minOraclePriceUsd (RedeemQuoteInput.vault ri)) = Inr mn"
    "toBigInt (maxOraclePriceUsd (RedeemQuoteInput.vault ri)) = Inr mx"
    "Vault.decimals (RedeemQuoteInput.vault ri) = IntNum dv" "0 \<le> dv"
    "Config.decimals (RedeemQuoteInput.config ri) = IntNum dl" "0 \<le> dl"
    "redeemFeeRate (RedeemQuoteInput.benefactor ri) = IntNum r" "0 \<le> r" "r \<le> 10000"
  shows "(\<exists>q. getRedeemQuote ri = Inr q) = (mn * 10 ^ 4 \<le> oc \<and> oc \<le> mx * 10 ^ 4)"
proof -
  define fee where "fee = (a * r) div 10000 + (if (a * r) mod 10000 \<noteq> 0 then 1 else 0)"
  have le: "fee \<le> a"
    unfolding fee_def using assms(2,14,15) by (intro fee_le_amount) simp_all
  note ev = getRedeemQuote_eval[OF assms(1-14) fee_def refl refl]
  show ?thesis
    unfolding ev using le by auto
qed

lemma above_max_mint_eval: "getMintQuote above_max_mint_input = Inr above_max_mint_quote"
proof -
  have "getMintQuote above_max_mint_input =
     (if (120000000::int) < 9000 * 10 ^ 4 then Inl OraclePriceOutOfBounds
      else if (2500000::int) > 1000000000 then Inl MintFeeExceedsAmount
      else Inr \<lparr> MintQuote.amountIn = 1000000000, feeAmount = 2500000,
                 netAmount = 1000000000 - 2500000,
                 oracleAmount = 1200000000, oneToOneAmount = 997500000,
                 mintAmount = (if (1200000000::int) < 997500000 then 1200000000 else 997500000) \<rparr>)"
    by (rule getMintQuote_eval[where p=10000 and oc=120000000 and dv=6 and dl=6 and r=25])
       (simp_all add: above_max_mint_input_def scenario_benefactor_def scenario_config_def
          scenario_vault_def toBigInt_def)
  then show ?thesis by (simp add: above_max_mint_quote_def)
qed

lemma above_max_fields:
  "toBigInt (MintQuoteInput.amountIn above_max_mint_input) = Inr 1000000000"
  "toBigInt (pegPriceUsd (MintQuoteInput.config above_max_mint_input)) = Inr 10000"
  "toBigInt (MintQuoteInput.oraclePriceUsd above_max_mint_input) = Inr 120000000"
  "toBigInt (minOraclePriceUsd (MintQuoteInput.vault above_max_mint_input)) = Inr 9000"
  "toBigInt (maxOraclePriceUsd (MintQuoteInput.vault above_max_mint_input)) = Inr 11000"
  by (simp_all add: above_max_mint_input_def scenario_config_def scenario_vault_def toBigInt_def)

lemma above_max_redeem_eval:
  "getRedeemQuote (as_redeem_input above_max_mint_input) = Inl OraclePriceOutOfBounds"
proof -
  have "(getRedeemQuote (as_redeem_input above_max_mint_input) = Inl OraclePriceOutOfBounds) =
        ((120000000::int) < 9000 * 10 ^ 4 \<or> 11000 * 10 ^ 4 < (120000000::int))"
    by (rule getRedeemQuote_bounds_iff[where a=1000000000 and p=10000])
       (simp_all add: as_redeem_input_def above_max_fields)
  then show ?thesis by simp
qed

text \<open>
  Claim C7. Once the amount, the peg price and the oracle price are read and positive,
  \<open>getMintQuote\<close> raises its out-of-bounds error exactly when the oracle price is
  strictly below \<open>vault.minOraclePriceUsd * 10^4\<close>, with no upper bound, while
  \<open>getRedeemQuote\<close> raises it exactly when the oracle price is strictly below
  \<open>vault.minOraclePriceUsd * 10^4\<close> or strictly above
  \<open>vault.maxOraclePriceUsd * 10^4\<close>. With valid decimals and a fee rate of at most
  \<open>10000\<close> the mint quote therefore succeeds exactly when the price is at least the
  rescaled minimum and the redeem quote exactly when it lies between the two rescaled
  bounds. Some input with the oracle price above the rescaled maximum makes the mint
  quote succeed and the redeem quote fail.
\<close>

theorem oracle_bounds_asymmetry:
  assumes "toBigInt (MintQuoteInput.amountIn mi) = Inr a" and "0 < a"
    and "toBigInt (pegPriceUsd (MintQuoteInput.config mi)) = Inr p" and "0 < p"
    and "toBigInt (MintQuoteInput.oraclePriceUsd mi) = Inr oc" and "0 < oc"
    and "toBigInt (minOraclePriceUsd (MintQuoteInput.vault mi)) = Inr mn"
    and "toBigInt (maxOraclePriceUsd (MintQuoteInput.vault mi)) = Inr mx"
  shows "((getMintQuote mi = Inl OraclePriceOutOfBounds) = (oc < mn * 10 ^ 4)) \<and>
         ((getRedeemQuote (as_redeem_input mi) = Inl OraclePriceOutOfBounds) =
            (oc < mn * 10 ^ 4 \<or> mx * 10 ^ 4 < oc)) \<and>
         (Vault.decimals (MintQuoteInput.vault mi) = IntNum dv \<and> 0 \<le> dv \<and>
          Config.decimals (MintQuoteInput.config mi) = IntNum dl \<and> 0 \<le> dl \<and>
          mintFeeRate (MintQuoteInput.benefactor mi) = IntNum r \<and> 0 \<le> r \<and> r \<le> 10000 \<longrightarrow>
            (\<exists>q. getMintQuote mi = Inr q) = (mn * 10 ^ 4 \<le> oc)) \<and>
         (Vault.decimals (MintQuoteInput.vault mi) = IntNum dv \<and> 0 \<le> dv \<and>
          Config.decimals (MintQuoteInput.config mi) = IntNum dl \<and> 0 \<le> dl \<and>
          redeemFeeRate (MintQuoteInput.benefactor mi) = IntNum r' \<and> 0 \<le> r' \<and> r' \<le> 10000 \<longrightarrow>
            (\<exists>q. getRedeemQuote (as_redeem_input mi) = Inr q) =
              (mn * 10 ^ 4 \<le> oc \<and> oc \<le> mx * 10 ^ 4)) \<and>
         (\<exists>mi' q' oc' mx'.
            toBigInt (MintQuoteInput.oraclePriceUsd mi') = Inr oc' \<and>
            toBigInt (maxOraclePriceUsd (MintQuoteInput.vault mi')) = Inr mx' \<and>
            mx' * 10 ^ 4 < oc' \<and>
            getMintQuote mi' = Inr q' \<and>
            getRedeemQuote (as_redeem_input mi') = Inl OraclePriceOutOfBounds)"
proof (intro conjI impI)
  show "(getMintQuote mi = Inl OraclePriceOutOfBounds) = (oc < mn * 10 ^ 4)"
    using assms(1-7) by (rule getMintQuote_bounds_iff)
  show "(getRedeemQuote (as_redeem_input mi) = Inl OraclePriceOutOfBounds) =
            (oc < mn * 10 ^ 4 \<or> mx * 10 ^ 4 < oc)"
    by (rule getRedeemQuote_bounds_iff[where a=a and p=p])
       (simp_all add: as_redeem_input_def assms)
  show "(\<exists>q. getMintQuote mi = Inr q) = (mn * 10 ^ 4 \<le> oc)"
    if "Vault.decimals (MintQuoteInput.vault mi) = IntNum dv \<and> 0 \<le> dv \<and>
          Config.decimals (MintQuoteInput.config mi) = IntNum dl \<and> 0 \<le> dl \<and>
          mintFeeRate (MintQuoteInput.benefactor mi) = IntNum r \<and> 0 \<le> r \<and> r \<le> 10000"
    by (rule getMintQuote_succeeds_iff[where a=a and p=p and dv=dv and dl=dl and r=r])
       (simp_all add: assms that)
  show "(\<exists>q. getRedeemQuote (as_redeem_input mi) = Inr q) =
              (mn * 10 ^ 4 \<le> oc \<and> oc \<le> mx * 10 ^ 4)"
    if "Vault.decimals (MintQuoteInput.vault mi) = IntNum dv \<and> 0 \<le> dv \<and>
          Config.decimals (MintQuoteInput.config mi) = IntNum dl \<and> 0 \<le> dl \<and>
          redeemFeeRate (MintQuoteInput.benefactor mi) = IntNum r' \<and> 0 \<le> r' \<and> r' \<le> 10000"
    by (rule getRedeemQuote_succeeds_iff[where a=a and p=p and dv=dv and dl=dl and r=r'])
       (simp_all add: as_redeem_input_def assms that)
  have "(11000::int) * 10 ^ 4 < 120000000" by simp
  with above_max_fields(3,5) above_max_mint_eval above_max_redeem_eval
  show "\<exists>mi' q' oc' mx'.
            toBigInt (MintQuoteInput.oraclePriceUsd mi') = Inr oc' \<and>
            toBigInt (maxOraclePriceUsd (MintQuoteInput.vault mi')) = Inr mx' \<and>
            mx' * 10 ^ 4 < oc' \<and>
            getMintQuote mi' = Inr q' \<and>
            getRedeemQuote (as_redeem_input mi') = Inl OraclePriceOutOfBounds"
    by blast
qed

lemma above_max_settings:
  "Vault.decimals (MintQuoteInput.vault above_max_mint_input) = IntNum 6"
  "Config.decimals (MintQuoteInput.config above_max_mint_input) = IntNum 6"
  "mintFeeRate (MintQuoteInput.benefactor above_max_mint_input) = IntNum 25"
  "redeemFeeRate (MintQuoteInput.benefactor above_max_mint_input) = IntNum 25"
  by (simp_all add: above_max_mint_input_def scenario_config_def scenario_vault_def
      scenario_benefactor_def)

text \<open>An oracle price of \<open>1.2\<close> dollars against a vault maximum of \<open>1.1\<close>.\<close>

theorem oracle_bounds_asymmetry_witness:
  "toBigInt (MintQuoteInput.amountIn above_max_mint_input) = Inr 1000000000 \<and>
   (0::int) < 1000000000 \<and>
   toBigInt (pegPriceUsd (MintQuoteInput.config above_max_mint_input)) = Inr 10000 \<and>
   (0::int) < 10000 \<and>
   toBigInt (MintQuoteInput.oraclePriceUsd above_max_mint_input) = Inr 120000000 \<and>
   (0::int) < 120000000 \<and>
   toBigInt (minOraclePriceUsd (MintQuoteInput.vault above_max_mint_input)) = Inr 9000 \<and>
   toBigInt (maxOraclePriceUsd (MintQuoteInput.vault above_max_mint_input)) = Inr 11000 \<and>
   Vault.decimals (MintQuoteInput.vault above_max_mint_input) = IntNum 6 \<and>
   Config.decimals (MintQuoteInput.config above_max_mint_input) = IntNum 6 \<and>
   mintFeeRate (MintQuoteInput.benefactor above_max_mint_input) = IntNum 25 \<and>
   redeemFeeRate (MintQuoteInput.benefactor above_max_mint_input) = IntNum 25 \<and>
   (0::int) \<le> 6 \<and> (0::int) \<le> 25 \<and> (25::int) \<le> 10000 \<and>
   (11000::int) * 10 ^ 4 < 120000000 \<and>
   getMintQuote above_max_mint_input \<noteq> Inl OraclePriceOutOfBounds \<and>
   (\<exists>q. getMintQuote above_max_mint_input = Inr q) \<and>
   getRedeemQuote (as_redeem_input above_max_mint_input) = Inl OraclePriceOutOfBounds \<and>
   \<not> (\<exists>q. getRedeemQuote (as_redeem_input above_max_mint_input) = Inr q)"
proof -
  have pos: "(0::int) < 1000000000" "(0::int) < 10000" "(0::int) < 120000000"
    by simp_all
  have ar: "(0::int) \<le> 6" "(0::int) \<le> 25" "(25::int) \<le> 10000"
    "(11000::int) * 10 ^ 4 < 120000000" "\<not> (120000000::int) < 9000 * 10 ^ 4"
    "(9000::int) * 10 ^ 4 \<le> 120000000" "\<not> (120000000::int) \<le> 11000 * 10 ^ 4"
    by simp_all
  note t = oracle_bounds_asymmetry[OF above_max_fields(1) pos(1) above_max_fields(2) pos(2)
      above_max_fields(3) pos(3) above_max_fields(4,5), of 6 6 25 25]
  from t above_max_fields above_max_settings pos ar show ?thesis
    by blast
qed

section \<open>Period limits\<close>

lemma getRemainingCapacity_disabled:
  "toBigIntField (durationSeconds l) ''limit.durationSeconds'' = Inr 0 \<Longrightarrow>
   getRemainingCapacity l now op = Inr None"
  by (simp add: getRemainingCapacity_def)

lemma getRemainingCapacity_blocked:
  "toBigIntField (durationSeconds l) ''limit.durationSeconds'' = Inr d \<Longrightarrow> d \<noteq> 0 \<Longrightarrow>
   (if op = ''mint'' then toBigIntField (maxMintAmount l) ''limit.maxMintAmount''
    else toBigIntField (maxRedeemAmount l) ''limit.maxRedeemAmount'') = Inr 0 \<Longrightarrow>
   getRemainingCapacity l now op = Inr (Some 0)"
  by (simp add: getRemainingCapacity_def)

lemma getRemainingCapacity_expired:
  "toBigIntField (durationSeconds l) ''limit.durationSeconds'' = Inr d \<Longrightarrow> d \<noteq> 0 \<Longrightarrow>
   (if op = ''mint'' then toBigIntField (maxMintAmount l) ''limit.maxMintAmount''
    else toBigIntField (maxRedeemAmount l) ''limit.maxRedeemAmount'') = Inr m \<Longrightarrow>
   toBigIntField (windowStart l) ''limit.windowStart'' = Inr w \<Longrightarrow> d \<le> now - w \<Longrightarrow>
   getRemainingCapacity l now op = Inr (Some m)"
  by (simp add: getRemainingCapacity_def Let_def)

lemma getRemainingCapacity_active:
  "toBigIntField (durationSeconds l) ''limit.durationSeconds'' = Inr d \<Longrightarrow> d \<noteq> 0 \<Longrightarrow>
   (if op = ''mint'' then toBigIntField (maxMintAmount l) ''limit.maxMintAmount''
    else toBigIntField (maxRedeemAmount l) ''limit.maxRedeemAmount'') = Inr m \<Longrightarrow> m \<noteq> 0 \<Longrightarrow>
   toBigIntField (windowStart l) ''limit.windowStart'' = Inr w \<Longrightarrow> now - w < d \<Longrightarrow>
   (if op = ''mint'' then toBigIntField (mintedAmount l) ''limit.mintedAmount''
    else toBigIntField (redeemedAmount l) ''limit.redeemedAmount'') = Inr u \<Longrightarrow>
   getRemainingCapacity l now op = Inr (Some (m - u))"
  by (simp add: getRemainingCapacity_def Let_def)

lemma findLimitExceedance_step:
  "getRemainingCapacity l now op = Inr (Some r) \<Longrightarrow>
   findLimitExceedance (l # rest) amt now op =
     (if r < amt then Inr (Some (max r 0)) else findLimitExceedance rest amt now op)"
  by (simp add: max_def)

lemma findLimitExceedance_skip:
  "getRemainingCapacity l now op = Inr None \<Longrightarrow>
   findLimitExceedance (l # rest) amt now op = findLimitExceedance rest amt now op"
  by simp

lemma findLimitExceedance_append:
  "findLimitExceedance (xs @ ys) amt now op =
     (case findLimitExceedance xs amt now op of
        Inl e \<Rightarrow> Inl e
      | Inr None \<Rightarrow> findLimitExceedance ys amt now op
      | Inr (Some r) \<Rightarrow> Inr (Some r))"
proof (induction xs)
  case Nil
  show ?case by simp
next
  case (Cons x xs)
  show ?case
  proof (cases "getRemainingCapacity x now op")
    case (Inl e)
    then show ?thesis by simp
  next
    case (Inr c)
    with Cons show ?thesis by (cases c) simp_all
  qed
qed

lemma findLimitExceedance_None_iff:
  "findLimitExceedance ls amt now op = Inr None \<longleftrightarrow>
     (\<forall>l \<in> set ls. slot_readable l now op \<and> \<not> slot_violated l amt now op)"
proof (induction ls)
  case Nil
  show ?case by simp
next
  case (Cons x xs)
  show ?case
  proof (cases "getRemainingCapacity x now op")
    case (Inl e)
    then show ?thesis by (simp add: slot_readable_def)
  next
    case (Inr c)
    with Cons show ?thesis
      by (cases c) (simp_all add: slot_readable_def slot_violated_def)
  qed
qed

lemma findLimitExceedance_violated:
  assumes "\<forall>l \<in> set ls. slot_readable l now op" "\<exists>l \<in> set ls. slot_violated l amt now op"
  shows "\<exists>r. findLimitExceedance ls amt now op = Inr (Some r)"
  using assms
proof (induction ls)
  case Nil
  then show ?case by simp
next
  case (Cons x xs)
  from Cons.prems(1) obtain c where c: "getRemainingCapacity x now op = Inr c"
    by (auto simp: slot_readable_def split: sum.splits)
  show ?case
  proof (cases "slot_violated x amt now op")
    case True
    with c show ?thesis by (auto simp: slot_violated_def split: option.splits)
  next
    case False
    with Cons.prems have "\<forall>l \<in> set xs. slot_readable l now op" "\<exists>l \<in> set xs. slot_violated l amt now op"
      by auto
    from Cons.IH[OF this] obtain r where "findLimitExceedance xs amt now op = Inr (Some r)" ..
    with c False show ?thesis by (auto simp: slot_violated_def split: option.splits)
  qed
qed

lemma tight_slot_capacity: "getRemainingCapacity tight_slot 10000 ''mint'' = Inr (Some 100)"
  by (simp add: getRemainingCapacity_def tight_slot_def toBigIntField_def Let_def)

lemma expired_slot_capacity: "getRemainingCapacity expired_slot 10000 ''mint'' = Inr (Some 1000)"
  by (simp add: getRemainingCapacity_def expired_slot_def toBigIntField_def Let_def)

lemma disabled_slot_capacity: "getRemainingCapacity disabled_slot now op = Inr None"
  by (simp add: getRemainingCapacity_def disabled_slot_def toBigIntField_def)

lemma blocked_slot_capacity: "getRemainingCapacity blocked_slot now op = Inr (Some 0)"
  by (simp add: getRemainingCapacity_def blocked_slot_def toBigIntField_def)

text \<open>
  Claim C4. For a positive amount and a slot evaluated at time \<open>now\<close>: a slot with
  \<open>durationSeconds = 0\<close> is skipped; otherwise, if the operation's maximum amount is
  \<open>0\<close> the remaining capacity is \<open>0\<close> and the slot is violated; if
  \<open>now - windowStart \<ge> durationSeconds\<close> the used amount counts as \<open>0\<close>, whatever
  the persisted counters hold, so the remaining capacity is the maximum amount;
  otherwise the remaining capacity is the maximum amount minus the persisted counter of
  the operation. A slot with remaining capacity \<open>r\<close> is violated exactly when the
  amount exceeds \<open>r\<close>, and the reported amount is \<open>max r 0\<close>; an unviolated slot
  passes the check on to the next slot.
\<close>

theorem remaining_capacity_rules:
  assumes "0 < amt"
  shows
    "(toBigIntField (durationSeconds sa) ''limit.durationSeconds'' = Inr 0 \<longrightarrow>
        getRemainingCapacity sa now op = Inr None \<and>
        findLimitExceedance (sa # rest) amt now op = findLimitExceedance rest amt now op) \<and>
     (toBigIntField (durationSeconds sb) ''limit.durationSeconds'' = Inr db \<and> db \<noteq> 0 \<and>
      (if op = ''mint'' then toBigIntField (maxMintAmount sb) ''limit.maxMintAmount''
       else toBigIntField (maxRedeemAmount sb) ''limit.maxRedeemAmount'') = Inr 0 \<longrightarrow>
        getRemainingCapacity sb now op = Inr (Some 0) \<and>
        findLimitExceedance (sb # rest) amt now op = Inr (Some 0)) \<and>
     (toBigIntField (durationSeconds sc) ''limit.durationSeconds'' = Inr dc \<and> dc \<noteq> 0 \<and>
      (if op = ''mint'' then toBigIntField (maxMintAmount sc) ''limit.maxMintAmount''
       else toBigIntField (maxRedeemAmount sc) ''limit.maxRedeemAmount'') = Inr mc \<and>
      toBigIntField (windowStart sc) ''limit.windowStart'' = Inr wc \<and> dc \<le> now - wc \<longrightarrow>
        getRemainingCapacity sc now op = Inr (Some mc)) \<and>
     (toBigIntField (durationSeconds sd) ''limit.durationSeconds'' = Inr dd \<and> dd \<noteq> 0 \<and>
      (if op = ''mint'' then toBigIntField (maxMintAmount sd) ''limit.maxMintAmount''
       else toBigIntField (maxRedeemAmount sd) ''limit.maxRedeemAmount'') = Inr md \<and> md \<noteq> 0 \<and>
      toBigIntField (windowStart sd) ''limit.windowStart'' = Inr wd \<and> now - wd < dd \<and>
      (if op = ''mint'' then toBigIntField (mintedAmount sd) ''limit.mintedAmount''
       else toBigIntField (redeemedAmount sd) ''limit.redeemedAmount'') = Inr ud \<longrightarrow>
        getRemainingCapacity sd now op = Inr (Some (md - ud))) \<and>
     (getRemainingCapacity se now op = Inr (Some r) \<longrightarrow>
        findLimitExceedance (se # rest) amt now op =
          (if r < amt then Inr (Some (max r 0)) else findLimitExceedance rest amt now op))"
proof (intro conjI impI)
  assume "toBigIntField (durationSeconds sa) ''limit.durationSeconds'' = Inr 0"
  then have c: "getRemainingCapacity sa now op = Inr None"
    by (rule getRemainingCapacity_disabled)
  show "getRemainingCapacity sa now op = Inr None" by (fact c)
  show "findLimitExceedance (sa # rest) amt now op = findLimitExceedance rest amt now op"
    using c by (rule findLimitExceedance_skip)
next
  assume h: "toBigIntField (durationSeconds sb) ''limit.durationSeconds'' = Inr db \<and> db \<noteq> 0 \<and>
      (if op = ''mint'' then toBigIntField (maxMintAmount sb) ''limit.maxMintAmount''
       else toBigIntField (maxRedeemAmount sb) ''limit.maxRedeemAmount'') = Inr 0"
  then have c: "getRemainingCapacity sb now op = Inr (Some 0)"
    by (intro getRemainingCapacity_blocked[where d=db]) simp_all
  show "getRemainingCapacity sb now op = Inr (Some 0)" by (fact c)
  show "findLimitExceedance (sb # rest) amt now op = Inr (Some 0)"
    using findLimitExceedance_step[OF c, of rest amt] assms by simp
next
  assume h: "toBigIntField (durationSeconds sc) ''limit.durationSeconds'' = Inr dc \<and> dc \<noteq> 0 \<and>
      (if op = ''mint'' then toBigIntField (maxMintAmount sc) ''limit.maxMintAmount''
       else toBigIntField (maxRedeemAmount sc) ''limit.maxRedeemAmount'') = Inr mc \<and>
      toBigIntField (windowStart sc) ''limit.windowStart'' = Inr wc \<and> dc \<le> now - wc"
  then show "getRemainingCapacity sc now op = Inr (Some mc)"
    by (intro getRemainingCapacity_expired[where d=dc and w=wc]) simp_all
next
  assume h: "toBigIntField (durationSeconds sd) ''limit.durationSeconds'' = Inr dd \<and> dd \<noteq> 0 \<and>
      (if op = ''mint'' then toBigIntField (maxMintAmount sd) ''limit.maxMintAmount''
       else toBigIntField (maxRedeemAmount sd) ''limit.maxRedeemAmount'') = Inr md \<and> md \<noteq> 0 \<and>
      toBigIntField (windowStart sd) ''limit.windowStart'' = Inr wd \<and> now - wd < dd \<and>
      (if op = ''mint'' then toBigIntField (mintedAmount sd) ''limit.mintedAmount''
       else toBigIntField (redeemedAmount sd) ''limit.redeemedAmount'') = Inr ud"
  then show "getRemainingCapacity sd now op = Inr (Some (md - ud))"
    by (intro getRemainingCapacity_active[where d=dd and w=wd]) simp_all
next
  assume "getRemainingCapacity se now op = Inr (Some r)"
  then show "findLimitExceedance (se # rest) amt now op =
          (if r < amt then Inr (Some (max r 0)) else findLimitExceedance rest amt now op)"
    by (rule findLimitExceedance_step)
qed

text \<open>The four kinds of slot at the clock reading \<open>10000\<close>, for a mint of \<open>150\<close>.\<close>

theorem remaining_capacity_rules_witness:
  "(0::int) < 150 \<and>
   toBigIntField (durationSeconds disabled_slot) ''limit.durationSeconds'' = Inr 0 \<and>
   getRemainingCapacity disabled_slot 10000 ''mint'' = Inr None \<and>
   findLimitExceedance [disabled_slot] 150 10000 ''mint'' = Inr None \<and>
   toBigIntField (durationSeconds blocked_slot) ''limit.durationSeconds'' = Inr 3600 \<and>
   toBigIntField (maxMintAmount blocked_slot) ''limit.maxMintAmount'' = Inr 0 \<and>
   getRemainingCapacity blocked_slot 10000 ''mint'' = Inr (Some 0) \<and>
   findLimitExceedance [blocked_slot] 150 10000 ''mint'' = Inr (Some 0) \<and>
   toBigIntField (durationSeconds expired_slot) ''limit.durationSeconds'' = Inr 3600 \<and>
   toBigIntField (maxMintAmount expired_slot) ''limit.maxMintAmount'' = Inr 1000 \<and>
   toBigIntField (windowStart expired_slot) ''limit.windowStart'' = Inr 2800 \<and>
   (3600::int) \<le> 10000 - 2800 \<and>
   toBigIntField (mintedAmount expired_slot) ''limit.mintedAmount'' = Inr 900 \<and>
   getRemainingCapacity expired_slot 10000 ''mint'' = Inr (Some 1000) \<and>
   toBigIntField (durationSeconds tight_slot) ''limit.durationSeconds'' = Inr 3600 \<and>
   toBigIntField (maxMintAmount tight_slot) ''limit.maxMintAmount'' = Inr 1000 \<and>
   toBigIntField (windowStart tight_slot) ''limit.windowStart'' = Inr 8200 \<and>
   (10000::int) - 8200 < 3600 \<and>
   toBigIntField (mintedAmount tight_slot) ''limit.mintedAmount'' = Inr 900 \<and>
   getRemainingCapacity tight_slot 10000 ''mint'' = Inr (Some (1000 - 900)) \<and>
   findLimitExceedance [tight_slot] 150 10000 ''mint'' = Inr (Some 100)"
proof -
  have pos: "(0::int) < 150" by simp
  have a: "toBigIntField (durationSeconds disabled_slot) ''limit.durationSeconds'' = Inr 0"
    by (simp add: disabled_slot_def toBigIntField_def)
  have b: "toBigIntField (durationSeconds blocked_slot) ''limit.durationSeconds'' = Inr 3600"
    "(3600::int) \<noteq> 0"
    "(if ''mint'' = ''mint'' then toBigIntField (maxMintAmount blocked_slot) ''limit.maxMintAmount''
      else toBigIntField (maxRedeemAmount blocked_slot) ''limit.maxRedeemAmount'') = Inr 0"
    by (simp_all add: blocked_slot_def toBigIntField_def)
  have c: "toBigIntField (durationSeconds expired_slot) ''limit.durationSeconds'' = Inr 3600"
    "(if ''mint'' = ''mint'' then toBigIntField (maxMintAmount expired_slot) ''limit.maxMintAmount''
      else toBigIntField (maxRedeemAmount expired_slot) ''limit.maxRedeemAmount'') = Inr 1000"
    "toBigIntField (windowStart expired_slot) ''limit.windowStart'' = Inr 2800"
    "(3600::int) \<le> 10000 - 2800"
    "toBigIntField (mintedAmount expired_slot) ''limit.mintedAmount'' = Inr 900"
    by (simp_all add: expired_slot_def toBigIntField_def)
  have d: "toBigIntField (durationSeconds tight_slot) ''limit.durationSeconds'' = Inr 3600"
    "(if ''mint'' = ''mint'' then toBigIntField (maxMintAmount tight_slot) ''limit.maxMintAmount''
      else toBigIntField (maxRedeemAmount tight_slot) ''limit.maxRedeemAmount'') = Inr 1000"
    "(1000::int) \<noteq> 0"
    "toBigIntField (windowStart tight_slot) ''limit.windowStart'' = Inr 8200"
    "(10000::int) - 8200 < 3600"
    "(if ''mint'' = ''mint'' then toBigIntField (mintedAmount tight_slot) ''limit.mintedAmount''
      else toBigIntField (redeemedAmount tight_slot) ''limit.redeemedAmount'') = Inr 900"
    by (simp_all add: tight_slot_def toBigIntField_def)
  note t = remaining_capacity_rules[OF pos, where sa=disabled_slot and sb=blocked_slot
      and sc=expired_slot and sd=tight_slot and se=tight_slot and now=10000 and op="''mint''"
      and rest="[]" and db=3600 and dc=3600 and mc=1000 and wc=2800 and dd=3600 and md=1000
      and wd=8200 and ud=900 and r=100]
  from t a have r1: "getRemainingCapacity disabled_slot 10000 ''mint'' = Inr None"
    "findLimitExceedance [disabled_slot] 150 10000 ''mint'' = findLimitExceedance [] 150 10000 ''mint''"
    by blast+
  from t b have r2: "getRemainingCapacity blocked_slot 10000 ''mint'' = Inr (Some 0)"
    "findLimitExceedance [blocked_slot] 150 10000 ''mint'' = Inr (Some 0)"
    by blast+
  from t b(2) c have r3: "getRemainingCapacity expired_slot 10000 ''mint'' = Inr (Some 1000)"
    by blast
  from t b(2) d have r4: "getRemainingCapacity tight_slot 10000 ''mint'' = Inr (Some (1000 - 900))"
    by blast
  then have r4': "getRemainingCapacity tight_slot 10000 ''mint'' = Inr (Some 100)"
    by simp
  from t r4' have r5: "findLimitExceedance [tight_slot] 150 10000 ''mint'' =
      (if (100::int) < 150 then Inr (Some (max 100 0)) else findLimitExceedance [] 150 10000 ''mint'')"
    by blast
  from pos a b c d r1 r2 r3 r4 r5 show ?thesis by simp
qed

lemma findPeriodLimitViolation_checked:
  assumes "toBigIntField (amount inp) ''amount'' = Inr amt" "0 < amt"
    "operation inp = ''mint'' \<or> operation inp = ''redeem''"
  shows "findPeriodLimitViolation now inp =
     bindE (findLimitExceedance (Config.periodLimits (PeriodLimitCheckInput.config inp))
              amt now (operation inp)) (\<lambda>configRemaining.
     case configRemaining of
       Some r \<Rightarrow> Inr (Some \<lparr> account = AccountConfig, remainingAmount = r \<rparr>)
     | None \<Rightarrow>
     bindE (findLimitExceedance (Vault.periodLimits (PeriodLimitCheckInput.vault inp))
              amt now (operation inp)) (\<lambda>vaultRemaining.
     case vaultRemaining of
       Some r \<Rightarrow> Inr (Some \<lparr> account = AccountVault, remainingAmount = r \<rparr>)
     | None \<Rightarrow>
     bindE (findLimitExceedance
              (Benefactor.periodLimits (PeriodLimitCheckInput.benefactor inp))
              amt now (operation inp)) (\<lambda>benefactorRemaining.
     case benefactorRemaining of
       Some r \<Rightarrow> Inr (Some \<lparr> account = AccountBenefactor, remainingAmount = r \<rparr>)
     | None \<Rightarrow> Inr None)))"
  using assms by (auto simp: findPeriodLimitViolation_def Let_def)

lemma all_violated_eval:
  "findPeriodLimitViolation 10000 all_violated_input = Inr (Some all_violated_result)"
  by (simp add: findPeriodLimitViolation_def all_violated_input_def limits_config_def
      toBigIntField_def Let_def tight_slot_capacity all_violated_result_def)

text \<open>
  Claim C5, as stated, ends: for every input where both a vault slot and a benefactor
  slot would be violated, the returned violation has account "vault". When a config
  slot is violated as well, the config violation is returned.
\<close>

theorem vault_before_benefactor_counterexample:
  "toBigIntField (amount all_violated_input) ''amount'' = Inr 150 \<and>
   operation all_violated_input = ''mint'' \<and>
   Vault.periodLimits (PeriodLimitCheckInput.vault all_violated_input) = [tight_slot] \<and>
   Benefactor.periodLimits (PeriodLimitCheckInput.benefactor all_violated_input) = [tight_slot] \<and>
   slot_violated tight_slot 150 10000 ''mint'' \<and>
   findPeriodLimitViolation 10000 all_violated_input = Inr (Some all_violated_result) \<and>
   account all_violated_result \<noteq> AccountVault"
  using all_violated_eval
  by (simp add: all_violated_input_def limits_vault_def limits_benefactor_def
      toBigIntField_def slot_violated_def tight_slot_capacity all_violated_result_def)

text \<open>
  Claim C5, amended. For a positive amount and a valid operation,
  \<open>findPeriodLimitViolation\<close> returns the config violation when the config list has
  one, whatever the vault and benefactor lists hold; the vault violation when the config
  list has none and the vault list has one, whatever the benefactor list holds; the
  benefactor violation when only the benefactor list has one. Within a list the first
  violated slot in index order decides the result, whatever follows it. In particular,
  when the config check finds no violation, the vault slots are readable and both a
  vault slot and a benefactor slot would be violated, the returned violation has
  account "vault".
\<close>

theorem period_limit_priority:
  assumes "toBigIntField (amount inp) ''amount'' = Inr amt" and "0 < amt"
    and "operation inp = ''mint'' \<or> operation inp = ''redeem''"
  shows
    "(findLimitExceedance (Config.periodLimits (PeriodLimitCheckInput.config inp))
        amt now (operation inp) = Inr (Some rc) \<longrightarrow>
      findPeriodLimitViolation now inp =
        Inr (Some \<lparr> account = AccountConfig, remainingAmount = rc \<rparr>)) \<and>
     (findLimitExceedance (Config.periodLimits (PeriodLimitCheckInput.config inp))
        amt now (operation inp) = Inr None \<and>
      findLimitExceedance (Vault.periodLimits (PeriodLimitCheckInput.vault inp))
        amt now (operation inp) = Inr (Some rv) \<longrightarrow>
      findPeriodLimitViolation now inp =
        Inr (Some \<lparr> account = AccountVault, remainingAmount = rv \<rparr>)) \<and>
     (findLimitExceedance (Config.periodLimits (PeriodLimitCheckInput.config inp))
        amt now (operation inp) = Inr None \<and>
      findLimitExceedance (Vault.periodLimits (PeriodLimitCheckInput.vault inp))
        amt now (operation inp) = Inr None \<and>
      findLimitExceedance (Benefactor.periodLimits (PeriodLimitCheckInput.benefactor inp))
        amt now (operation inp) = Inr (Some rb) \<longrightarrow>
      findPeriodLimitViolation now inp =
        Inr (Some \<lparr> account = AccountBenefactor, remainingAmount = rb \<rparr>)) \<and>
     (findLimitExceedance pre amt now (operation inp) = Inr None \<and>
      getRemainingCapacity l now (operation inp) = Inr (Some c) \<and> c < amt \<longrightarrow>
      findLimitExceedance (pre @ l # post) amt now (operation inp) = Inr (Some (max c 0))) \<and>
     (findLimitExceedance (Config.periodLimits (PeriodLimitCheckInput.config inp))
        amt now (operation inp) = Inr None \<and>
      (\<forall>s \<in> set (Vault.periodLimits (PeriodLimitCheckInput.vault inp)).
         slot_readable s now (operation inp)) \<and>
      (\<exists>s \<in> set (Vault.periodLimits (PeriodLimitCheckInput.vault inp)).
         slot_violated s amt now (operation inp)) \<and>
      (\<exists>s \<in> set (Benefactor.periodLimits (PeriodLimitCheckInput.benefactor inp)).
         slot_violated s amt now (operation inp)) \<longrightarrow>
      (\<exists>rv'. findPeriodLimitViolation now inp =
        Inr (Some \<lparr> account = AccountVault, remainingAmount = rv' \<rparr>)))"
proof -
  note ev = findPeriodLimitViolation_checked[OF assms, of now]
  have p1: "findPeriodLimitViolation now inp =
        Inr (Some \<lparr> account = AccountConfig, remainingAmount = rc \<rparr>)"
    if "findLimitExceedance (Config.periodLimits (PeriodLimitCheckInput.config inp))
        amt now (operation inp) = Inr (Some rc)"
    unfolding ev using that by simp
  have p2: "findPeriodLimitViolation now inp =
        Inr (Some \<lparr> account = AccountVault, remainingAmount = x \<rparr>)"
    if "findLimitExceedance (Config.periodLimits (PeriodLimitCheckInput.config inp))
        amt now (operation inp) = Inr None"
      "findLimitExceedance (Vault.periodLimits (PeriodLimitCheckInput.vault inp))
        amt now (operation inp) = Inr (Some x)" for x
    unfolding ev using that by simp
  have p3: "findPeriodLimitViolation now inp =
        Inr (Some \<lparr> account = AccountBenefactor, remainingAmount = rb \<rparr>)"
    if "findLimitExceedance (Config.periodLimits (PeriodLimitCheckInput.config inp))
        amt now (operation inp) = Inr None"
      "findLimitExceedance (Vault.periodLimits (PeriodLimitCheckInput.vault inp))
        amt now (operation inp) = Inr None"
      "findLimitExceedance (Benefactor.periodLimits (PeriodLimitCheckInput.benefactor inp))
        amt now (operation inp) = Inr (Some rb)"
    unfolding ev using that by simp
  have p4: "findLimitExceedance (pre @ l # post) amt now (operation inp) = Inr (Some (max c 0))"
    if "findLimitExceedance pre amt now (operation inp) = Inr None"
      "getRemainingCapacity l now (operation inp) = Inr (Some c)" "c < amt"
    using that by (simp add: findLimitExceedance_append max_def)
  have p5: "\<exists>rv'. findPeriodLimitViolation now inp =
        Inr (Some \<lparr> account = AccountVault, remainingAmount = rv' \<rparr>)"
    if c: "findLimitExceedance (Config.periodLimits (PeriodLimitCheckInput.config inp))
        amt now (operation inp) = Inr None"
      and r: "\<forall>s \<in> set (Vault.periodLimits (PeriodLimitCheckInput.vault inp)).
         slot_readable s now (operation inp)"
      and v: "\<exists>s \<in> set (Vault.periodLimits (PeriodLimitCheckInput.vault inp)).
         slot_violated s amt now (operation inp)"
  proof -
    from findLimitExceedance_violated[OF r v] obtain x where
      "findLimitExceedance (Vault.periodLimits (PeriodLimitCheckInput.vault inp))
        amt now (operation inp) = Inr (Some x)" ..
    from p2[OF c this] show ?thesis ..
  qed
  from p1 p2 p3 p4 p5 show ?thesis by blast
qed

text \<open>
  Three inputs at the clock reading \<open>10000\<close>: every owner violated, vault and
  benefactor violated, only the benefactor violated.
\<close>

theorem period_limit_priority_witness:
  "findLimitExceedance (Config.periodLimits (PeriodLimitCheckInput.config all_violated_input))
     150 10000 (operation all_violated_input) = Inr (Some 100) \<and>
   findPeriodLimitViolation 10000 all_violated_input =
     Inr (Some \<lparr> account = AccountConfig, remainingAmount = 100 \<rparr>) \<and>
   findLimitExceedance (Config.periodLimits (PeriodLimitCheckInput.config vault_first_input))
     150 10000 (operation vault_first_input) = Inr None \<and>
   findLimitExceedance (Vault.periodLimits (PeriodLimitCheckInput.vault vault_first_input))
     150 10000 (operation vault_first_input) = Inr (Some 100) \<and>
   slot_readable disabled_slot 10000 ''mint'' \<and> slot_readable tight_slot 10000 ''mint'' \<and>
   slot_violated tight_slot 150 10000 ''mint'' \<and> slot_violated blocked_slot 150 10000 ''mint'' \<and>
   findPeriodLimitViolation 10000 vault_first_input =
     Inr (Some \<lparr> account = AccountVault, remainingAmount = 100 \<rparr>) \<and>
   findLimitExceedance [disabled_slot] 150 10000 ''mint'' = Inr None \<and>
   findLimitExceedance ([disabled_slot] @ tight_slot # [blocked_slot]) 150 10000 ''mint'' =
     Inr (Some 100) \<and>
   findLimitExceedance (Vault.periodLimits (PeriodLimitCheckInput.vault benefactor_only_input))
     150 10000 (operation benefactor_only_input) = Inr None \<and>
   findPeriodLimitViolation 10000 benefactor_only_input =
     Inr (Some \<lparr> account = AccountBenefactor, remainingAmount = 0 \<rparr>)"
proof -
  have pos: "(0::int) < 150" by simp
  have a1: "toBigIntField (amount all_violated_input) ''amount'' = Inr 150"
    and o1: "operation all_violated_input = ''mint'' \<or> operation all_violated_input = ''redeem''"
    and c1: "findLimitExceedance (Config.periodLimits (PeriodLimitCheckInput.config all_violated_input))
       150 10000 (operation all_violated_input) = Inr (Some 100)"
    by (simp_all add: all_violated_input_def limits_config_def toBigIntField_def tight_slot_capacity)
  have a2: "toBigIntField (amount vault_first_input) ''amount'' = Inr 150"
    and o2: "operation vault_first_input = ''mint'' \<or> operation vault_first_input = ''redeem''"
    and c2: "findLimitExceedance (Config.periodLimits (PeriodLimitCheckInput.config vault_first_input))
       150 10000 (operation vault_first_input) = Inr None"
    and v2: "findLimitExceedance (Vault.periodLimits (PeriodLimitCheckInput.vault vault_first_input))
       150 10000 (operation vault_first_input) = Inr (Some 100)"
    and pre2: "findLimitExceedance [disabled_slot] 150 10000 (operation vault_first_input) = Inr None"
    and l2: "getRemainingCapacity tight_slot 10000 (operation vault_first_input) = Inr (Some 100)"
    and lt2: "(100::int) < 150"
    by (simp_all add: vault_first_input_def limits_config_def limits_vault_def toBigIntField_def
        tight_slot_capacity disabled_slot_capacity)
  have rd2: "\<forall>s \<in> set (Vault.periodLimits (PeriodLimitCheckInput.vault vault_first_input)).
         slot_readable s 10000 (operation vault_first_input)"
    and vv2: "\<exists>s \<in> set (Vault.periodLimits (PeriodLimitCheckInput.vault vault_first_input)).
         slot_violated s 150 10000 (operation vault_first_input)"
    and vb2: "\<exists>s \<in> set (Benefactor.periodLimits (PeriodLimitCheckInput.benefactor vault_first_input)).
         slot_violated s 150 10000 (operation vault_first_input)"
    by (simp_all add: vault_first_input_def limits_vault_def limits_benefactor_def
        slot_readable_def slot_violated_def tight_slot_capacity disabled_slot_capacity
        blocked_slot_capacity)
  have sl: "slot_readable disabled_slot 10000 ''mint''" "slot_readable tight_slot 10000 ''mint''"
    "slot_violated tight_slot 150 10000 ''mint''" "slot_violated blocked_slot 150 10000 ''mint''"
    by (simp_all add: slot_readable_def slot_violated_def tight_slot_capacity
        disabled_slot_capacity blocked_slot_capacity)
  have a3: "toBigIntField (amount benefactor_only_input) ''amount'' = Inr 150"
    and o3: "operation benefactor_only_input = ''mint'' \<or> operation benefactor_only_input = ''redeem''"
    and c3: "findLimitExceedance (Config.periodLimits (PeriodLimitCheckInput.config benefactor_only_input))
       150 10000 (operation benefactor_only_input) = Inr None"
    and v3: "findLimitExceedance (Vault.periodLimits (PeriodLimitCheckInput.vault benefactor_only_input))
       150 10000 (operation benefactor_only_input) = Inr None"
    and b3: "findLimitExceedance (Benefactor.periodLimits (PeriodLimitCheckInput.benefactor benefactor_only_input))
       150 10000 (operation benefactor_only_input) = Inr (Some 0)"
    by (simp_all add: benefactor_only_input_def limits_config_def limits_vault_def
        limits_benefactor_def toBigIntField_def expired_slot_capacity disabled_slot_capacity
        blocked_slot_capacity)
  note t1 = period_limit_priority[OF a1 pos o1, where now=10000 and rc=100]
  note t2 = period_limit_priority[OF a2 pos o2, where now=10000 and rv=100
      and pre="[disabled_slot]" and l=tight_slot and post="[blocked_slot]" and c=100]
  note t3 = period_limit_priority[OF a3 pos o3, where now=10000 and rb=0]
  from t1 c1 have r1: "findPeriodLimitViolation 10000 all_violated_input =
     Inr (Some \<lparr> account = AccountConfig, remainingAmount = 100 \<rparr>)"
    by blast
  from t2 c2 v2 have r2: "findPeriodLimitViolation 10000 vault_first_input =
     Inr (Some \<lparr> account = AccountVault, remainingAmount = 100 \<rparr>)"
    by blast
  from t2 pre2 l2 lt2 have r4: "findLimitExceedance ([disabled_slot] @ tight_slot # [blocked_slot])
      150 10000 (operation vault_first_input) = Inr (Some (max 100 0))"
    by blast
  from t2 c2 rd2 vv2 vb2 have r5: "\<exists>rv'. findPeriodLimitViolation 10000 vault_first_input =
        Inr (Some \<lparr> account = AccountVault, remainingAmount = rv' \<rparr>)"
    by blast
  from t3 c3 v3 b3 have r3: "findPeriodLimitViolation 10000 benefactor_only_input =
     Inr (Some \<lparr> account = AccountBenefactor, remainingAmount = 0 \<rparr>)"
    by blast
  have op2: "operation vault_first_input = ''mint''"
    by (simp add: vault_first_input_def)
  from r4 have r4': "findLimitExceedance ([disabled_slot] @ tight_slot # [blocked_slot])
      150 10000 ''mint'' = Inr (Some 100)"
    unfolding op2 by simp
  from pre2 have pre2': "findLimitExceedance [disabled_slot] 150 10000 ''mint'' = Inr None"
    unfolding op2 .
  from c1 r1 c2 v2 sl r2 pre2' r4' v3 r3 show ?thesis
    by (intro conjI)
qed

section \<open>The peg-price parser\<close>

lemma BigInt_of_digits_snoc:
  "BigInt_of_digits (s @ [c]) = BigInt_of_digits s * 10 + digit_value c"
  by (simp add: BigInt_of_digits_def)

lemma BigInt_of_digits_zeros:
  "BigInt_of_digits (s @ replicate k CHR ''0'') = BigInt_of_digits s * 10 ^ k"
proof (induction k)
  case 0
  show ?case by simp
next
  case (Suc k)
  have "s @ replicate (Suc k) CHR ''0'' = (s @ replicate k CHR ''0'') @ [CHR ''0'']"
    by (simp add: replicate_append_same)
  then have "BigInt_of_digits (s @ replicate (Suc k) CHR ''0'')
      = BigInt_of_digits (s @ replicate k CHR ''0'') * 10 + digit_value CHR ''0''"
    by (simp only: BigInt_of_digits_snoc)
  with Suc show ?case by (simp add: digit_value_def)
qed

lemma BigInt_of_digits_Nil [simp]: "BigInt_of_digits [] = 0"
  by (simp add: BigInt_of_digits_def)

lemma digit_value_nonneg: "is_digit c \<Longrightarrow> 0 \<le> digit_value c"
  by (auto simp: is_digit_def digit_value_def)

lemma BigInt_of_digits_nonneg: "list_all is_digit s \<Longrightarrow> 0 \<le> BigInt_of_digits s"
proof (induction s rule: rev_induct)
  case Nil
  show ?case by simp
next
  case (snoc c s)
  then have "0 \<le> BigInt_of_digits s" "0 \<le> digit_value c"
    by (simp_all add: digit_value_nonneg)
  then show ?case by (simp add: BigInt_of_digits_snoc)
qed

lemma is_digit_not_dot: "is_digit c \<Longrightarrow> c \<noteq> CHR ''.''"
  by (auto simp: is_digit_def)

lemma split_dot_digits: "list_all is_digit w \<Longrightarrow> split_dot w = [w]"
  by (induction w) (auto dest: is_digit_not_dot)

lemma split_dot_whole_fraction:
  "list_all is_digit w \<Longrightarrow> split_dot (w @ CHR ''.'' # f) = w # split_dot f"
  by (induction w) (auto dest: is_digit_not_dot)

lemma takeWhile_digits_dot:
  "list_all is_digit w \<Longrightarrow> takeWhile is_digit (w @ CHR ''.'' # f) = w"
  by (induction w) (auto simp: is_digit_def)

lemma dropWhile_digits_dot:
  "list_all is_digit w \<Longrightarrow> dropWhile is_digit (w @ CHR ''.'' # f) = CHR ''.'' # f"
  by (induction w) (auto simp: is_digit_def)

lemma takeWhile_all: "list_all P w \<Longrightarrow> takeWhile P w = w"
  by (induction w) auto

lemma dropWhile_all: "list_all P w \<Longrightarrow> dropWhile P w = []"
  by (induction w) auto

lemma test_decimal_digits: "test_digits w \<Longrightarrow> test_decimal w"
  by (simp add: test_decimal_def test_digits_def takeWhile_all dropWhile_all)

lemma test_decimal_whole_fraction:
  "test_digits w \<Longrightarrow> test_decimal (w @ CHR ''.'' # f) = test_digits f"
  by (simp add: test_decimal_def test_digits_def takeWhile_digits_dot dropWhile_digits_dot)

lemma test_decimal_iff:
  "test_decimal s \<longleftrightarrow>
     test_digits s \<or> (\<exists>w f. s = w @ CHR ''.'' # f \<and> test_digits w \<and> test_digits f)"
proof
  assume td: "test_decimal s"
  let ?w = "takeWhile is_digit s" and ?r = "dropWhile is_digit s"
  have s: "s = ?w @ ?r" by simp
  have w: "list_all is_digit ?w"
    by (simp add: list_all_iff) (meson set_takeWhileD)
  show "test_digits s \<or> (\<exists>w f. s = w @ CHR ''.'' # f \<and> test_digits w \<and> test_digits f)"
  proof (cases ?r)
    case Nil
    with s have "s = ?w" by simp
    with td w show ?thesis
      by (auto simp: test_decimal_def test_digits_def)
  next
    case (Cons c f)
    with td have "c = CHR ''.''" "test_digits f" "?w \<noteq> []"
      by (simp_all add: test_decimal_def)
    with Cons s w have "s = ?w @ CHR ''.'' # f \<and> test_digits ?w \<and> test_digits f"
      by (simp add: test_digits_def)
    then show ?thesis by blast
  qed
next
  assume "test_digits s \<or> (\<exists>w f. s = w @ CHR ''.'' # f \<and> test_digits w \<and> test_digits f)"
  then show "test_decimal s"
    by (auto simp: test_decimal_digits test_decimal_whole_fraction)
qed

lemma parsePegPriceFlag_whole:
  assumes "test_digits w" "trim v = w"
  shows "parsePegPriceFlag v =
     (if BigInt_of_digits w > 2 ^ 64 - 1 then Inl (UnableToParseU64 ''peg-price-usd'')
      else if scaled_decimal w [] \<le> 0 then Inl PegPriceNotGreaterThanZero
      else if scaled_decimal w [] \<ge> 2 * 10 ^ 4 then Inl PegPriceTooLarge
      else Inr \<lparr> scaledValue = scaled_decimal w [],
                 displayValue = strip_trailing_dot (w @ ''.'' @ take 4 (padEnd0 [] 4)) \<rparr>)"
proof -
  from assms(1) have d: "list_all is_digit w" by (simp add: test_digits_def)
  have pad: "BigInt_of_digits (padEnd0 [] 4) = 0"
    using BigInt_of_digits_zeros[of "[]" 4] by (simp add: padEnd0_def)
  have ne: "padEnd0 [] 4 \<noteq> []" by (simp add: padEnd0_def)
  show ?thesis
    using assms test_decimal_digits[OF assms(1)] pad ne
    by (simp add: parsePegPriceFlag_def split_dot_digits[OF d] PEG_PRICE_DECIMALS_def
        parseU64StringFlag_def scaled_decimal_def Let_def)
qed

lemma parsePegPriceFlag_fraction:
  assumes "test_digits w" "test_digits f" "length f \<le> 4" "trim v = w @ ''.'' @ f"
  shows "parsePegPriceFlag v =
     (if BigInt_of_digits w > 2 ^ 64 - 1 then Inl (UnableToParseU64 ''peg-price-usd'')
      else if scaled_decimal w f \<le> 0 then Inl PegPriceNotGreaterThanZero
      else if scaled_decimal w f \<ge> 2 * 10 ^ 4 then Inl PegPriceTooLarge
      else Inr \<lparr> scaledValue = scaled_decimal w f,
                 displayValue = strip_trailing_dot (w @ ''.'' @ take 4 (padEnd0 f 4)) \<rparr>)"
proof -
  from assms(1,2) have d: "list_all is_digit w" "list_all is_digit f" "f \<noteq> []"
    by (simp_all add: test_digits_def)
  have pad: "BigInt_of_digits (padEnd0 f 4) = BigInt_of_digits f * 10 ^ (4 - length f)"
    by (simp add: padEnd0_def BigInt_of_digits_zeros)
  have ne: "padEnd0 f 4 \<noteq> []" using d(3) by (simp add: padEnd0_def)
  have tr: "trim v = w @ CHR ''.'' # f" using assms(4) by simp
  have td: "test_decimal (w @ CHR ''.'' # f)"
    using assms(1,2) by (simp add: test_decimal_whole_fraction)
  have sp: "split_dot (w @ CHR ''.'' # f) = [w, f]"
    by (simp add: split_dot_whole_fraction[OF d(1)] split_dot_digits[OF d(2)])
  show ?thesis
    using assms(1,3) pad ne
    by (simp add: parsePegPriceFlag_def tr td sp PEG_PRICE_DECIMALS_def
        parseU64StringFlag_def scaled_decimal_def Let_def)
qed

lemma parsePegPriceFlag_precision:
  assumes "test_digits w" "test_digits f" "4 < length f" "trim v = w @ ''.'' @ f"
  shows "parsePegPriceFlag v = Inl PegPricePrecisionExceeded"
proof -
  from assms(1,2) have d: "list_all is_digit w" "list_all is_digit f"
    by (simp_all add: test_digits_def)
  have tr: "trim v = w @ CHR ''.'' # f" using assms(4) by simp
  have td: "test_decimal (w @ CHR ''.'' # f)"
    using assms(1,2) by (simp add: test_decimal_whole_fraction)
  have sp: "split_dot (w @ CHR ''.'' # f) = [w, f]"
    by (simp add: split_dot_whole_fraction[OF d(1)] split_dot_digits[OF d(2)])
  show ?thesis
    using assms(3)
    by (simp add: parsePegPriceFlag_def tr td sp PEG_PRICE_DECIMALS_def Let_def)
qed

lemma parsePegPriceFlag_format:
  "\<not> test_decimal (trim v) \<Longrightarrow> parsePegPriceFlag v = Inl InvalidPegPriceFormat"
  by (simp add: parsePegPriceFlag_def)

lemma scaled_over_u64:
  assumes "list_all is_digit f" "BigInt_of_digits w > 2 ^ 64 - 1"
  shows "scaled_decimal w f \<ge> 2 * 10 ^ 4"
proof -
  have "0 \<le> BigInt_of_digits f * 10 ^ (4 - length f)"
    using BigInt_of_digits_nonneg[OF assms(1)] by simp
  moreover have "2 * 10 ^ 4 \<le> BigInt_of_digits w * (10 ^ 4 :: int)"
    using assms(2) by simp
  ultimately show ?thesis
    unfolding scaled_decimal_def by linarith
qed

lemma parsePegPriceFlag_accepts_whole:
  assumes "test_digits w" "trim v = w"
  shows "(\<exists>r. parsePegPriceFlag v = Inr r) = (1 \<le> scaled_decimal w [] \<and> scaled_decimal w [] < 2 * 10 ^ 4)"
    and "parsePegPriceFlag v = Inr r \<Longrightarrow> scaledValue r = scaled_decimal w []"
proof -
  note ev = parsePegPriceFlag_whole[OF assms]
  have big: "BigInt_of_digits w > 2 ^ 64 - 1 \<Longrightarrow> scaled_decimal w [] \<ge> 2 * 10 ^ 4"
    by (rule scaled_over_u64) simp_all
  show "(\<exists>r. parsePegPriceFlag v = Inr r) = (1 \<le> scaled_decimal w [] \<and> scaled_decimal w [] < 2 * 10 ^ 4)"
    unfolding ev using big by auto
  show "scaledValue r = scaled_decimal w []" if "parsePegPriceFlag v = Inr r"
    using that unfolding ev by (auto split: if_splits)
qed

lemma parsePegPriceFlag_accepts_fraction:
  assumes "test_digits w" "test_digits f" "length f \<le> 4" "trim v = w @ ''.'' @ f"
  shows "(\<exists>r. parsePegPriceFlag v = Inr r) = (1 \<le> scaled_decimal w f \<and> scaled_decimal w f < 2 * 10 ^ 4)"
    and "parsePegPriceFlag v = Inr r \<Longrightarrow> scaledValue r = scaled_decimal w f"
proof -
  note ev = parsePegPriceFlag_fraction[OF assms]
  have big: "BigInt_of_digits w > 2 ^ 64 - 1 \<Longrightarrow> scaled_decimal w f \<ge> 2 * 10 ^ 4"
    using assms(2) by (intro scaled_over_u64) (simp_all add: test_digits_def)
  show "(\<exists>r. parsePegPriceFlag v = Inr r) = (1 \<le> scaled_decimal w f \<and> scaled_decimal w f < 2 * 10 ^ 4)"
    unfolding ev using big by auto
  show "scaledValue r = scaled_decimal w f" if "parsePegPriceFlag v = Inr r"
    using that unfolding ev by (auto split: if_splits)
qed

lemma parse_1_0025:
  "parsePegPriceFlag ''1.0025'' = Inr \<lparr> scaledValue = 10025, displayValue = ''1.0025'' \<rparr>"
  by (simp add: parsePegPriceFlag_def trim_def is_white_space_def test_decimal_def test_digits_def
      is_digit_def PEG_PRICE_DECIMALS_def padEnd0_def parseU64StringFlag_def BigInt_of_digits_def
      digit_value_def strip_trailing_dot_def Let_def)

lemma parse_2: "parsePegPriceFlag ''2'' = Inl PegPriceTooLarge"
proof -
  have "test_digits ''2''" "trim ''2'' = ''2''"
    by (simp_all add: test_digits_def is_digit_def trim_def is_white_space_def)
  from parsePegPriceFlag_whole[OF this] show ?thesis
    by (simp add: scaled_decimal_def BigInt_of_digits_def digit_value_def)
qed

lemma parse_0: "parsePegPriceFlag ''0'' = Inl PegPriceNotGreaterThanZero"
proof -
  have "test_digits ''0''" "trim ''0'' = ''0''"
    by (simp_all add: test_digits_def is_digit_def trim_def is_white_space_def)
  from parsePegPriceFlag_whole[OF this] show ?thesis
    by (simp add: scaled_decimal_def BigInt_of_digits_def digit_value_def)
qed

text \<open>
  Claim C8. The peg-price parser maps \<open>"1.0025"\<close> to the scaled integer \<open>10025\<close>,
  rejects \<open>"2"\<close> (scaled \<open>20000\<close>, the upper boundary) and rejects \<open>"0"\<close>. After
  trimming, an input that is well formed for the parser, that is digits, or digits, a
  point and one to four digits, is accepted exactly when its scaled value lies in
  \<open>[1, 2 * 10^4)\<close>, and the accepted value is that scaled value. Inputs with more than
  four fraction digits and inputs that are not decimal numbers are rejected for their
  form. The last conjunct says what the parser's format test admits.
\<close>

theorem peg_price_parser:
  "parsePegPriceFlag ''1.0025'' = Inr \<lparr> scaledValue = 10025, displayValue = ''1.0025'' \<rparr> \<and>
   parsePegPriceFlag ''2'' = Inl PegPriceTooLarge \<and>
   parsePegPriceFlag ''0'' = Inl PegPriceNotGreaterThanZero \<and>
   (test_digits wa \<and> trim va = wa \<longrightarrow>
      (\<exists>r. parsePegPriceFlag va = Inr r) =
        (1 \<le> scaled_decimal wa [] \<and> scaled_decimal wa [] < 2 * 10 ^ 4) \<and>
      (\<forall>r. parsePegPriceFlag va = Inr r \<longrightarrow> scaledValue r = scaled_decimal wa [])) \<and>
   (test_digits wb \<and> test_digits fb \<and> length fb \<le> 4 \<and> trim vb = wb @ ''.'' @ fb \<longrightarrow>
      (\<exists>r. parsePegPriceFlag vb = Inr r) =
        (1 \<le> scaled_decimal wb fb \<and> scaled_decimal wb fb < 2 * 10 ^ 4) \<and>
      (\<forall>r. parsePegPriceFlag vb = Inr r \<longrightarrow> scaledValue r = scaled_decimal wb fb)) \<and>
   (test_digits wc \<and> test_digits fc \<and> 4 < length fc \<and> trim vc = wc @ ''.'' @ fc \<longrightarrow>
      parsePegPriceFlag vc = Inl PegPricePrecisionExceeded) \<and>
   (\<not> test_decimal (trim vd) \<longrightarrow> parsePegPriceFlag vd = Inl InvalidPegPriceFormat) \<and>
   test_decimal s =
     (test_digits s \<or> (\<exists>w f. s = w @ ''.'' @ f \<and> test_digits w \<and> test_digits f))"
proof (intro conjI impI allI)
  show "parsePegPriceFlag ''1.0025'' = Inr \<lparr> scaledValue = 10025, displayValue = ''1.0025'' \<rparr>"
    by (fact parse_1_0025)
  show "parsePegPriceFlag ''2'' = Inl PegPriceTooLarge" by (fact parse_2)
  show "parsePegPriceFlag ''0'' = Inl PegPriceNotGreaterThanZero" by (fact parse_0)
  show "(\<exists>r. parsePegPriceFlag va = Inr r) =
        (1 \<le> scaled_decimal wa [] \<and> scaled_decimal wa [] < 2 * 10 ^ 4)"
    if "test_digits wa \<and> trim va = wa"
    using that by (intro parsePegPriceFlag_accepts_whole(1)) simp_all
  show "scaledValue r = scaled_decimal wa []"
    if "test_digits wa \<and> trim va = wa" "parsePegPriceFlag va = Inr r" for r
    using that by (intro parsePegPriceFlag_accepts_whole(2)[where v=va]) simp_all
  show "(\<exists>r. parsePegPriceFlag vb = Inr r) =
        (1 \<le> scaled_decimal wb fb \<and> scaled_decimal wb fb < 2 * 10 ^ 4)"
    if "test_digits wb \<and> test_digits fb \<and> length fb \<le> 4 \<and> trim vb = wb @ ''.'' @ fb"
    using that by (intro parsePegPriceFlag_accepts_fraction(1)) simp_all
  show "scaledValue r = scaled_decimal wb fb"
    if "test_digits wb \<and> test_digits fb \<and> length fb \<le> 4 \<and> trim vb = wb @ ''.'' @ fb"
      "parsePegPriceFlag vb = Inr r" for r
    using that by (intro parsePegPriceFlag_accepts_fraction(2)[where v=vb]) simp_all
  show "parsePegPriceFlag vc = Inl PegPricePrecisionExceeded"
    if "test_digits wc \<and> test_digits fc \<and> 4 < length fc \<and> trim vc = wc @ ''.'' @ fc"
    using that by (intro parsePegPriceFlag_precision[where w=wc and f=fc]) simp_all
  show "parsePegPriceFlag vd = Inl InvalidPegPriceFormat" if "\<not> test_decimal (trim vd)"
    using that by (rule parsePegPriceFlag_format)
  show "test_decimal s =
     (test_digits s \<or> (\<exists>w f. s = w @ ''.'' @ f \<and> test_digits w \<and> test_digits f))"
    using test_decimal_iff[of s] by simp
qed

text \<open>
  A padded \<open>" 1 "\<close>, the largest accepted value \<open>"1.9999"\<close>, five fraction digits
  and a dangling point.
\<close>

theorem peg_price_parser_witness:
  "test_digits ''1'' \<and> trim '' 1 '' = ''1'' \<and>
   scaled_decimal ''1'' [] = 10000 \<and>
   (\<exists>r. parsePegPriceFlag '' 1 '' = Inr r \<and> scaledValue r = 10000) \<and>
   test_digits ''9999'' \<and> length ''9999'' \<le> 4 \<and> trim ''1.9999'' = ''1'' @ ''.'' @ ''9999'' \<and>
   scaled_decimal ''1'' ''9999'' = 19999 \<and>
   (\<exists>r. parsePegPriceFlag ''1.9999'' = Inr r \<and> scaledValue r = 19999) \<and>
   test_digits ''00250'' \<and> 4 < length ''00250'' \<and> trim ''1.00250'' = ''1'' @ ''.'' @ ''00250'' \<and>
   parsePegPriceFlag ''1.00250'' = Inl PegPricePrecisionExceeded \<and>
   \<not> test_decimal (trim ''1.'') \<and>
   parsePegPriceFlag ''1.'' = Inl InvalidPegPriceFormat"
proof -
  have d: "test_digits ''1''" "test_digits ''9999''" "test_digits ''00250''"
    by (simp_all add: test_digits_def is_digit_def)
  have tr: "trim '' 1 '' = ''1''" "trim ''1.9999'' = ''1'' @ ''.'' @ ''9999''"
    "trim ''1.00250'' = ''1'' @ ''.'' @ ''00250''"
    by (simp_all add: trim_def is_white_space_def)
  have len: "length ''9999'' \<le> 4" "4 < length ''00250''"
    by simp_all
  have sc: "scaled_decimal ''1'' [] = 10000" "scaled_decimal ''1'' ''9999'' = 19999"
    by (simp_all add: scaled_decimal_def BigInt_of_digits_def digit_value_def)
  have rg: "1 \<le> scaled_decimal ''1'' [] \<and> scaled_decimal ''1'' [] < 2 * 10 ^ 4"
    "1 \<le> scaled_decimal ''1'' ''9999'' \<and> scaled_decimal ''1'' ''9999'' < 2 * 10 ^ 4"
    by (simp_all add: sc)
  have nd: "\<not> test_decimal (trim ''1.'')"
    by (simp add: trim_def is_white_space_def test_decimal_def test_digits_def is_digit_def)
  note t = peg_price_parser[where wa="''1''" and va="'' 1 ''" and wb="''1''" and fb="''9999''"
      and vb="''1.9999''" and wc="''1''" and fc="''00250''" and vc="''1.00250''" and vd="''1.''"]
  from t d tr rg obtain ra where ra: "parsePegPriceFlag '' 1 '' = Inr ra"
    by blast
  with t d tr have ra': "scaledValue ra = scaled_decimal ''1'' []"
    by blast
  from t d tr len rg obtain rb where rb: "parsePegPriceFlag ''1.9999'' = Inr rb"
    by blast
  with t d tr len have rb': "scaledValue rb = scaled_decimal ''1'' ''9999''"
    by blast
  from t d tr len have pc: "parsePegPriceFlag ''1.00250'' = Inl PegPricePrecisionExceeded"
    by blast
  from t nd have pd: "parsePegPriceFlag ''1.'' = Inl InvalidPegPriceFormat"
    by blast
  from ra ra' sc(1) have ea: "\<exists>r. parsePegPriceFlag '' 1 '' = Inr r \<and> scaledValue r = 10000"
    by simp
  from rb rb' sc(2) have eb: "\<exists>r. parsePegPriceFlag ''1.9999'' = Inr r \<and> scaledValue r = 19999"
    by simp
  from d tr len sc ea eb pc nd pd show ?thesis
    by (intro conjI)
qed

end
